theory Spec2Isabelle
  imports Complex_Main "HOL-Library.Multiset" "HOL-Library.Log_Nat"
begin

section \<open>Strings and catalogue types\<close>

text \<open>
  Python strings are modelled as \<open>string\<close>, one \<open>char\<close> per code point below 256
  (Latin-1).  \<open>str.lower\<close> on that range maps \<open>A\<close>..\<open>Z\<close> and the
  accented capitals \<open>0xC0\<close>..\<open>0xDE\<close> (without the multiplication sign
  \<open>0xD7\<close>) to the code point 32 above.
\<close>

definition lower_chr :: "char \<Rightarrow> char" where
  "lower_chr c =
     (let n = (of_char c :: nat)
      in if (65 \<le> n \<and> n \<le> 90) \<or> (192 \<le> n \<and> n \<le> 222 \<and> n \<noteq> 215)
         then char_of (n + 32) else c)"

definition lower :: "string \<Rightarrow> string" where
  "lower s = map lower_chr s"

fun startswith :: "string \<Rightarrow> string \<Rightarrow> bool" where
  "startswith s [] = True"
| "startswith [] (p # ps) = False"
| "startswith (c # cs) (p # ps) = (c = p \<and> startswith cs ps)"

text \<open>\<open>contains_str s p\<close> is Python's \<open>p in s\<close>.\<close>

fun contains_str :: "string \<Rightarrow> string \<Rightarrow> bool" where
  "contains_str [] p = (p = [])"
| "contains_str (c # cs) p = (startswith (c # cs) p \<or> contains_str cs p)"

text \<open>
  An \<open>EveType\<close> row as the planner reads it.  A missing name is the empty string (the
  code always reads \<open>et.name or ""\<close>), a missing portion size is \<open>0\<close> (the code
  reads \<open>portion_size or 1\<close>).
\<close>

record evetype =
  type_id :: int
  name :: string
  portion_size :: int
  volume :: rat

type_synonym type_map = "int \<rightharpoonup> evetype"

text \<open>\<open>d.get(k, 0)\<close> on a dictionary of integers.\<close>

definition dget :: "(int \<rightharpoonup> int) \<Rightarrow> int \<Rightarrow> int" where
  "dget m k = (case m k of None \<Rightarrow> 0 | Some v \<Rightarrow> v)"

definition is_fuel_id :: "type_map \<Rightarrow> int \<Rightarrow> bool" where
  "is_fuel_id tm tid =
     (case tm tid of None \<Rightarrow> False | Some et \<Rightarrow> contains_str (lower (name et)) ''fuel block'')"

section \<open>Capacity calculator\<close>

text \<open>Python's \<open>min\<close> on a non-empty list; the callers test for emptiness first.\<close>

fun py_min :: "int list \<Rightarrow> int" where
  "py_min [] = 0"
| "py_min (x # xs) = fold min xs x"

text \<open>
  \<open>runcap_with_present\<close> (helper.py): the loop over \<open>reqs.items()\<close> with its two
  accumulators \<open>caps\<close> and \<open>have_any\<close>.
\<close>

fun runcap_loop ::
  "(int \<rightharpoonup> int) \<Rightarrow> type_map \<Rightarrow> (int \<times> int) list \<Rightarrow> int list \<Rightarrow> bool \<Rightarrow> int list \<times> bool" where
  "runcap_loop stock_map tm [] caps have_any = (caps, have_any)"
| "runcap_loop stock_map tm ((tid, need) # reqs) caps have_any =
     (if need \<le> 0 then runcap_loop stock_map tm reqs caps have_any
      else if is_fuel_id tm tid then runcap_loop stock_map tm reqs caps have_any
      else let have = dget stock_map tid
           in if have > 0 then runcap_loop stock_map tm reqs (caps @ [have div need]) True
              else runcap_loop stock_map tm reqs caps have_any)"

definition runcap_with_present :: "(int \<rightharpoonup> int) \<Rightarrow> (int \<times> int) list \<Rightarrow> type_map \<Rightarrow> int" where
  "runcap_with_present stock_map reqs tm =
     (let (caps, have_any) = runcap_loop stock_map tm reqs [] False
      in if \<not> have_any then 0 else if caps \<noteq> [] then py_min caps else 0)"

text \<open>
  The capacity of a priced plan (views.py, \<open>InputView.post\<close>, the \<open>caps_all\<close> loop):
  every non-fuel requirement with a positive per-run quantity gates, present or not.
\<close>

fun caps_all :: "(int \<rightharpoonup> int) \<Rightarrow> type_map \<Rightarrow> (int \<times> int) list \<Rightarrow> int list" where
  "caps_all stock tm [] = []"
| "caps_all stock tm ((tid, need) # reqs) =
     (if need \<le> 0 \<or> is_fuel_id tm tid then caps_all stock tm reqs
      else (dget stock tid div need) # caps_all stock tm reqs)"

definition runs_cap :: "(int \<rightharpoonup> int) \<Rightarrow> (int \<times> int) list \<Rightarrow> type_map \<Rightarrow> int" where
  "runs_cap stock reqs tm =
     (let caps = caps_all stock tm reqs in if caps \<noteq> [] then py_min caps else 0)"

text \<open>The requirements the specification lets gate capacity.\<close>

definition gating :: "type_map \<Rightarrow> (int \<times> int) list \<Rightarrow> (int \<times> int) list" where
  "gating tm reqs = filter (\<lambda>(tid, need). 0 < need \<and> \<not> is_fuel_id tm tid) reqs"

definition gating_present :: "(int \<rightharpoonup> int) \<Rightarrow> type_map \<Rightarrow> (int \<times> int) list \<Rightarrow> (int \<times> int) list" where
  "gating_present stock tm reqs = filter (\<lambda>(tid, need). 0 < dget stock tid) (gating tm reqs)"

definition spec_capacity :: "(int \<rightharpoonup> int) \<Rightarrow> (int \<times> int) list \<Rightarrow> int" where
  "spec_capacity stock g =
     (if g = [] then 0 else Min ((\<lambda>(tid, need). dget stock tid div need) ` set g))"

section \<open>Decimal arithmetic\<close>

text \<open>
  The program computes with Python's \<open>decimal.Decimal\<close> under the default context:
  28 significant digits, rounding half to even.  A \<open>Decimal\<close> is modelled by its value, a
  rational number; \<open>Decimal(n)\<close> of an integer and a decimal literal are exact; and each
  arithmetic operation returns the exact result rounded to 28 significant digits
  (\<open>dec_round\<close>).  The exponent limits of the context (\<open>Emax = 999999\<close>) are not
  modelled.
\<close>

type_synonym decimal = rat

definition round_half_even :: "rat \<Rightarrow> int" where
  "round_half_even x =
     (let f = \<lfloor>x\<rfloor>; d = x - of_int f
      in if d < 1 / 2 then f else if 1 / 2 < d then f + 1 else if even f then f else f + 1)"

text \<open>
  \<open>adjusted y\<close>, for \<open>0 < y\<close>, is the exponent of the most significant digit of \<open>y\<close>:
  the \<open>a\<close> with \<open>10 powi a \<le> y < 10 powi (a + 1)\<close>.  It is found from the digit counts
  of numerator and denominator, which fix it up to one.
\<close>

definition adjusted :: "rat \<Rightarrow> int" where
  "adjusted y =
     (let (p, q) = quotient_of y;
          a0 = int (floorlog 10 (nat p)) - int (floorlog 10 (nat q))
      in if 10 powi a0 \<le> y then a0 else a0 - 1)"

definition dec_round :: "rat \<Rightarrow> decimal" where
  "dec_round x =
     (if x = 0 then 0
      else let e = adjusted \<bar>x\<bar> - 27
           in of_int (round_half_even (x / 10 powi e)) * 10 powi e)"

definition dadd :: "decimal \<Rightarrow> decimal \<Rightarrow> decimal" where
  "dadd x y = dec_round (x + y)"

definition dsub :: "decimal \<Rightarrow> decimal \<Rightarrow> decimal" where
  "dsub x y = dec_round (x - y)"

definition dmul :: "decimal \<Rightarrow> decimal \<Rightarrow> decimal" where
  "dmul x y = dec_round (x * y)"

text \<open>Division; every divisor in the program is a positive constant or guarded positive.\<close>

definition ddiv :: "decimal \<Rightarrow> decimal \<Rightarrow> decimal" where
  "ddiv x y = dec_round (x / y)"

text \<open>\<open>to_integral_value(rounding=ROUND_DOWN)\<close>: truncation towards zero.\<close>

definition to_integral_down :: "decimal \<Rightarrow> int" where
  "to_integral_down x = (if 0 \<le> x then \<lfloor>x\<rfloor> else \<lceil>x\<rceil>)"

text \<open>
  A value that 28 significant digits hold exactly: an integer coefficient below
  \<open>10 ^ 28\<close> in absolute value, times a power of ten.
\<close>

definition representable :: "rat \<Rightarrow> bool" where
  "representable x = (\<exists>c j. x = of_int c * 10 powi j \<and> \<bar>c\<bar> < 10 ^ 28)"

section \<open>Efficiency bonus\<close>

text \<open>
  \<open>apply_me_to_requirements\<close> (helper.py).  The dictionary of requirements is an
  association list in insertion order.
\<close>

definition me_eff :: "decimal \<Rightarrow> decimal" where
  "me_eff me_pct = ddiv (dsub 100 me_pct) 100"

definition apply_me_to_requirements :: "(int \<times> int) list \<Rightarrow> decimal \<Rightarrow> (int \<times> int) list" where
  "apply_me_to_requirements per_run_requirements me_pct =
     (let eff = me_eff me_pct
      in map (\<lambda>(tid, base_q). (tid, \<lceil>dmul (of_int base_q) eff\<rceil>)) per_run_requirements)"

text \<open>
  \<open>x.quantize(Decimal(10) ** e)\<close>: round half to even at the exponent \<open>e\<close>; the
  operation raises \<open>InvalidOperation\<close> (here \<open>None\<close>) when the rounded coefficient
  needs more than 28 digits.
\<close>

definition quantize :: "decimal \<Rightarrow> int \<Rightarrow> decimal option" where
  "quantize x e =
     (let c = round_half_even (x / 10 powi e)
      in if \<bar>c\<bar> < 10 ^ 28 then Some (of_int c * 10 powi e) else None)"

section \<open>Unrefined refine rate\<close>

text \<open>
  views.py, \<open>InputView.post\<close>: the reprocessing rate of unrefined intermediates from the
  scrap-metal-processing level.  \<open>None\<close> is the exception \<open>quantize\<close> raises.
\<close>

definition smp_rate_pct :: "int \<Rightarrow> decimal option" where
  "smp_rate_pct smp_level =
     (case quantize (dmul 50 (dadd 1 (dmul (of_int smp_level) (2 / 100)))) (- 2) of
        None \<Rightarrow> None
      | Some pct \<Rightarrow> Some (if pct > 55 then 55 else pct))"

definition unrefined_refine_rate :: "int \<Rightarrow> decimal option" where
  "unrefined_refine_rate smp_level =
     (case smp_rate_pct smp_level of None \<Rightarrow> None | Some pct \<Rightarrow> Some (ddiv pct 100))"

section \<open>Resolved items, categories and refining\<close>

text \<open>
  \<open>ParsedLine\<close> and \<open>ParsedItem\<close> (helper.py).  The category strings \<open>"fuel"\<close>,
  \<open>"material"\<close> and \<open>"refine"\<close> are the constructors of \<open>category\<close>.
\<close>

record parsed_line =
  evetype :: evetype
  quantity :: int

datatype category = Fuel | Material | Refine

record parsed_item = parsed_line +
  category :: category

text \<open>
  The two catalogue queries of the planner are parameters of the model:
  \<open>reaction_mat_ids\<close> is the set of type ids that occur as a material of some
  \<open>Reaction\<close>, and \<open>mats_db tid\<close> lists the decomposition rows
  \<open>(material_eve_type_id, total)\<close> of the type \<open>tid\<close>, as the grouped
  \<open>EveTypeMaterial\<close> query returns them (empty when the type has none).
\<close>

type_synonym mats_db = "int \<Rightarrow> (int \<times> int) list"

fun categorize_items :: "int set \<Rightarrow> mats_db \<Rightarrow> parsed_line list \<Rightarrow> parsed_item list" where
  "categorize_items reaction_mat_ids mats [] = []"
| "categorize_items reaction_mat_ids mats (p # items) =
     (if contains_str (lower (name (evetype p))) ''fuel block''
      then \<lparr>evetype = evetype p, quantity = quantity p, category = Fuel\<rparr>
             # categorize_items reaction_mat_ids mats items
      else if type_id (evetype p) \<in> reaction_mat_ids
      then \<lparr>evetype = evetype p, quantity = quantity p, category = Material\<rparr>
             # categorize_items reaction_mat_ids mats items
      else if mats (type_id (evetype p)) \<noteq> []
      then \<lparr>evetype = evetype p, quantity = quantity p, category = Refine\<rparr>
             # categorize_items reaction_mat_ids mats items
      else categorize_items reaction_mat_ids mats items)"

definition is_unrefined_name :: "string \<Rightarrow> bool" where
  "is_unrefined_name nm = (nm \<noteq> [] \<and> startswith (lower nm) ''unrefined '')"

text \<open>\<open>d[k] = d.get(k, 0) + v\<close> on a dictionary of integers.\<close>

definition dict_inc :: "(int \<rightharpoonup> int) \<Rightarrow> int \<Rightarrow> int \<Rightarrow> (int \<rightharpoonup> int)" where
  "dict_inc d k v = d(k \<mapsto> dget d k + v)"

text \<open>
  \<open>refine_from_inputs\<close> (helper.py).  The rate of an item, its portions, the units one
  decomposition row produces, the inner loop over the rows and the outer loop over the
  refinable items.
\<close>

definition item_rate :: "decimal \<Rightarrow> decimal option \<Rightarrow> string \<Rightarrow> decimal" where
  "item_rate refine_rate unrefined_rate nm =
     (case unrefined_rate of
        None \<Rightarrow> refine_rate
      | Some ur \<Rightarrow> if is_unrefined_name nm then ur else refine_rate)"

definition portions_of :: "int \<Rightarrow> int \<Rightarrow> decimal" where
  "portions_of qty psize =
     (let portion = (if psize = 0 then 1 else psize)
      in if portion > 0 then ddiv (of_int qty) (of_int portion) else of_int qty)"

definition produced_units :: "int \<Rightarrow> decimal \<Rightarrow> decimal \<Rightarrow> int" where
  "produced_units per_portion portions rate =
     to_integral_down (dmul (dmul (of_int per_portion) portions) rate)"

fun refine_rows :: "decimal \<Rightarrow> decimal \<Rightarrow> (int \<times> int) list \<Rightarrow> (int \<rightharpoonup> int) \<Rightarrow> (int \<rightharpoonup> int)" where
  "refine_rows portions rate [] refined = refined"
| "refine_rows portions rate ((mt, per_portion) # rows) refined =
     (let produced = produced_units per_portion portions rate
      in if produced \<le> 0 then refine_rows portions rate rows refined
         else refine_rows portions rate rows (dict_inc refined mt produced))"

fun refine_loop ::
  "mats_db \<Rightarrow> decimal \<Rightarrow> decimal option \<Rightarrow> parsed_item list \<Rightarrow> (int \<rightharpoonup> int) \<Rightarrow> (int \<rightharpoonup> int)" where
  "refine_loop mats refine_rate unrefined_rate [] refined = refined"
| "refine_loop mats refine_rate unrefined_rate (p # refinables) refined =
     (let rate = item_rate refine_rate unrefined_rate (name (evetype p));
          portions = portions_of (quantity p) (portion_size (evetype p))
      in refine_loop mats refine_rate unrefined_rate refinables
           (refine_rows portions rate (mats (type_id (evetype p))) refined))"

definition refine_from_inputs ::
  "mats_db \<Rightarrow> parsed_item list \<Rightarrow> decimal \<Rightarrow> decimal option \<Rightarrow> (int \<rightharpoonup> int)" where
  "refine_from_inputs mats items refine_rate unrefined_rate =
     (let refinables = filter (\<lambda>p. category p = Refine) items
      in refine_loop mats refine_rate unrefined_rate refinables Map.empty)"

text \<open>
  \<open>build_initial_stock\<close> (helper.py): the refined yields, then the quantities of the
  material and fuel items.  The first loop copies \<open>refined\<close> into the empty \<open>stock\<close>.
\<close>

fun stock_loop :: "parsed_item list \<Rightarrow> (int \<rightharpoonup> int) \<Rightarrow> (int \<rightharpoonup> int)" where
  "stock_loop [] stock = stock"
| "stock_loop (p # items) stock =
     (if category p = Material \<or> category p = Fuel
      then stock_loop items (dict_inc stock (type_id (evetype p)) (quantity p))
      else stock_loop items stock)"

definition build_initial_stock ::
  "mats_db \<Rightarrow> parsed_item list \<Rightarrow> decimal \<Rightarrow> decimal option \<Rightarrow> (int \<rightharpoonup> int)" where
  "build_initial_stock mats items refine_rate unrefined_rate =
     stock_loop items (refine_from_inputs mats items refine_rate unrefined_rate)"

text \<open>
  views.py, \<open>InputView.post\<close>: after the initial stock is built, every resolved line with
  a positive quantity whose type is not yet a key of the stock is added to it, and its id
  recorded in \<open>extra_ids\<close>.  \<open>already\<close> is the key set before the loop.
\<close>

fun extras_loop ::
  "int set \<Rightarrow> parsed_line list \<Rightarrow> (int \<rightharpoonup> int) \<times> int set \<Rightarrow> (int \<rightharpoonup> int) \<times> int set" where
  "extras_loop already [] (stock, extra_ids) = (stock, extra_ids)"
| "extras_loop already (pl # resolved) (stock, extra_ids) =
     (if quantity pl \<le> 0 then extras_loop already resolved (stock, extra_ids)
      else if type_id (evetype pl) \<notin> already
      then extras_loop already resolved
             (dict_inc stock (type_id (evetype pl)) (quantity pl),
              insert (type_id (evetype pl)) extra_ids)
      else extras_loop already resolved (stock, extra_ids))"

definition request_stock ::
  "int set \<Rightarrow> mats_db \<Rightarrow> parsed_line list \<Rightarrow> decimal \<Rightarrow> decimal option \<Rightarrow> (int \<rightharpoonup> int) \<times> int set" where
  "request_stock reaction_mat_ids mats resolved refine_rate unrefined_rate =
     (let categorized = categorize_items reaction_mat_ids mats resolved;
          stock = build_initial_stock mats categorized refine_rate unrefined_rate
      in extras_loop (dom stock) resolved (stock, {}))"


text \<open>The yield of the specification: the floor of the real-valued product.\<close>

definition spec_yield :: "int \<Rightarrow> int \<Rightarrow> int \<Rightarrow> rat \<Rightarrow> int" where
  "spec_yield per_portion qty psize rate =
     \<lfloor>of_int per_portion * (of_int qty / of_int psize) * rate\<rfloor>"


text \<open>Example data: a type that no reaction consumes and that has no decomposition rows.\<close>

definition widget :: evetype where
  "widget = \<lparr>type_id = 99, name = ''Widget'', portion_size = 1, volume = 1\<rparr>"

definition no_mats :: mats_db where
  "no_mats tid = []"

text \<open>
  The \<open>(material, produced)\<close> pairs the two loops of \<open>refine_from_inputs\<close> visit, in
  order, and the dictionary that crediting the positive ones to an empty dictionary gives.
\<close>

definition item_yields :: "mats_db \<Rightarrow> decimal \<Rightarrow> decimal option \<Rightarrow> parsed_item \<Rightarrow> (int \<times> int) list" where
  "item_yields mats refine_rate unrefined_rate p =
     map (\<lambda>(mt, per_portion).
            (mt, produced_units per_portion
                   (portions_of (quantity p) (portion_size (evetype p)))
                   (item_rate refine_rate unrefined_rate (name (evetype p)))))
         (mats (type_id (evetype p)))"

definition all_yields :: "mats_db \<Rightarrow> decimal \<Rightarrow> decimal option \<Rightarrow> parsed_item list \<Rightarrow> (int \<times> int) list" where
  "all_yields mats refine_rate unrefined_rate items =
     concat (map (item_yields mats refine_rate unrefined_rate)
                 (filter (\<lambda>p. category p = Refine) items))"

definition positive_of :: "(int \<times> int) list \<Rightarrow> int \<Rightarrow> int list" where
  "positive_of ys mt = map snd (filter (\<lambda>(k, v). k = mt \<and> 0 < v) ys)"

definition credited :: "(int \<times> int) list \<Rightarrow> (int \<rightharpoonup> int)" where
  "credited ys mt = (if positive_of ys mt = [] then None else Some (sum_list (positive_of ys mt)))"

text \<open>Example data: an ore of portion size 3 whose only decomposition row is \<open>3 \<times> 34\<close>.\<close>

definition ore3 :: evetype where
  "ore3 = \<lparr>type_id = 1, name = ''Ore'', portion_size = 3, volume = 1\<rparr>"

definition ore3_mats :: mats_db where
  "ore3_mats tid = (if tid = 1 then [(34, 3)] else [])"

section \<open>Chain steps\<close>

text \<open>
  A priced plan as the chain builder reads it, and the values that the closure
  \<open>build_step\<close> of \<open>InputView.post\<close> captures from the request: the type map, the
  price lookups \<open>_price_in\<close>, \<open>_price_out\<close> and the buyback price (each a table from
  type ids to decimals), the buyback multiplier and switch, and the fee percentages.
\<close>

record plan =
  plan_name :: string
  per_run_requirements :: "(int \<times> int) list"
  per_run_products :: "(int \<times> int) list"
  time_per_run_seconds :: int
  blueprint_type_id :: int

record env =
  type_map :: type_map
  price_in :: "int \<Rightarrow> decimal"
  price_out :: "int \<Rightarrow> decimal"
  buyback_price :: "int \<Rightarrow> decimal"
  buyback_mult :: decimal
  use_buyback :: bool
  broker_fee_pct :: decimal
  output_basis_buy :: bool
  stax_pct :: decimal
  scc_pct :: decimal
  facility_tax_pct :: decimal
  cost_index_pct :: decimal

datatype py_error = KeyError | InvalidOperation

datatype step_kind = Reaction | Reprocess

text \<open>
  A rendered step.  Only the numeric content of the dictionary is kept; a value that the
  source stores as a display string \<open>f"{x:,.2f}"\<close> and later parses back
  (\<open>fees_display\<close>, \<open>need_value\<close>, \<open>product_stats_value\<close>, \<open>stock_value_used\<close>) is
  the decimal that the string denotes.  \<open>step_profit\<close> and \<open>stock_value_used\<close> are
  keys of reaction steps only.
\<close>

record input_row =
  row_type :: int
  need_per_run :: int
  have_used :: int
  total_need :: int
  need_missing :: int
  from_children :: int
  from_stock :: int

record step =
  kind :: step_kind
  title :: string
  runs :: int
  inputs :: "input_row list"
  product_name :: string
  produced_qty :: int
  produced_value :: decimal
  produced_volume :: decimal
  value_have :: decimal
  value_need :: decimal
  fees_inputs :: decimal
  fees_display :: decimal
  need_value :: decimal
  product_stats_value :: decimal
  product_stats_m3 :: decimal
  cumulative_profit :: decimal
  step_profit :: "decimal option"
  stock_value_used :: "decimal option"
  time_total_seconds :: int
  product_ids :: "int list"
  requirement_ids :: "int list"

text \<open>The value of \<open>Decimal(f"{x:,.2f}".replace(",", ""))\<close>: half-even at two decimals.\<close>

definition fmt2 :: "decimal \<Rightarrow> decimal" where
  "fmt2 x = of_int (round_half_even (x * 100)) / 100"

text \<open>\<open>_buyback_unit\<close>: the buyback price times the multiplier, quantized to \<open>0.0001\<close>.\<close>

definition buyback_unit :: "env \<Rightarrow> int \<Rightarrow> decimal option" where
  "buyback_unit e tid = quantize (dmul (buyback_price e tid) (buyback_mult e)) (- 4)"

text \<open>The first loop of \<open>build_step\<close>: the largest capacity of any non-fuel requirement.\<close>

fun display_loop ::
  "type_map \<Rightarrow> (int \<rightharpoonup> int) \<Rightarrow> (int \<rightharpoonup> int) \<Rightarrow> (int \<times> int) list \<Rightarrow> int \<Rightarrow> int" where
  "display_loop tm current_stock supply [] display_target_runs = display_target_runs"
| "display_loop tm current_stock supply ((tid, need) # reqs) display_target_runs =
     (if need \<le> 0 then display_loop tm current_stock supply reqs display_target_runs
      else if is_fuel_id tm tid then display_loop tm current_stock supply reqs display_target_runs
      else let total_avail = dget current_stock tid + dget supply tid;
               cap_i = total_avail div need
           in display_loop tm current_stock supply reqs
                (if cap_i > display_target_runs then cap_i else display_target_runs))"

text \<open>The accumulators of the second loop, over the requirements.\<close>

record req_acc =
  acc_supply :: "int \<rightharpoonup> int"
  acc_stock :: "int \<rightharpoonup> int"
  acc_inputs :: "input_row list"
  consumed_cost_raw :: decimal
  have_val_sum :: decimal
  need_val_sum :: decimal
  m3_total_sum :: decimal
  m3_need_sum :: decimal
  stock_val_sum :: decimal

text \<open>
  The body of the second loop for one requirement whose type \<open>et\<close> the type map knows.
  \<open>supplemental_supply[tid]\<close> raises \<open>KeyError\<close> on a missing key, and
  \<open>_buyback_unit\<close> can raise from \<open>quantize\<close>.
\<close>

definition req_row :: "env \<Rightarrow> int \<Rightarrow> int \<Rightarrow> int \<Rightarrow> int \<Rightarrow> evetype \<Rightarrow> req_acc \<Rightarrow> py_error + req_acc" where
  "req_row e n_runs display_target_runs tid need et a =
     (let have_now = dget (acc_stock a) tid;
          unit = price_in e tid;
          required_total = need * n_runs;
          display_required_total = need * display_target_runs;
          from_ch = min (dget (acc_supply a) tid) required_total
      in if from_ch \<noteq> 0 \<and> acc_supply a tid = None then Inl KeyError
         else
          let supply' = (if from_ch \<noteq> 0
                         then (acc_supply a)(tid \<mapsto> max 0 (dget (acc_supply a) tid - from_ch))
                         else acc_supply a);
              remain_after_children = required_total - from_ch;
              from_st = min have_now remain_after_children;
              have_used_i = from_ch + from_st;
              need_missing_display = max (display_required_total - have_used_i) 0;
              missing_val_with_broker =
                dmul (dmul unit (of_int need_missing_display))
                     (dadd 1 (ddiv (broker_fee_pct e) 100));
              m3_total = dmul (of_int required_total) (volume et);
              m3_need = dmul (of_int need_missing_display) (volume et);
              is_fuel = (is_fuel_id (type_map e) tid
                         \<or> contains_str (lower (name et)) ''fuel block'')
          in case (if use_buyback e \<and> from_st > 0 \<and> \<not> is_fuel
                   then buyback_unit e tid else Some unit) of
               None \<Rightarrow> Inl InvalidOperation
             | Some unit_stock_eff \<Rightarrow>
                 let have_val_children = dmul unit (of_int from_ch);
                     have_val_stock = dmul unit_stock_eff (of_int from_st);
                     have_val = dadd have_val_children have_val_stock
                 in Inr \<lparr>acc_supply = supply',
                         acc_stock = (acc_stock a)(tid \<mapsto> max 0 (have_now - from_st)),
                         acc_inputs = acc_inputs a @
                           [\<lparr>row_type = tid, need_per_run = need, have_used = have_used_i,
                             total_need = required_total,
                             need_missing = need_missing_display,
                             from_children = from_ch, from_stock = from_st\<rparr>],
                         consumed_cost_raw =
                           dadd (consumed_cost_raw a)
                             (dadd (dmul unit (of_int from_ch))
                                   (dmul unit_stock_eff (of_int from_st))),
                         have_val_sum = dadd (have_val_sum a) have_val,
                         need_val_sum = dadd (need_val_sum a) missing_val_with_broker,
                         m3_total_sum = dadd (m3_total_sum a) m3_total,
                         m3_need_sum = dadd (m3_need_sum a) m3_need,
                         stock_val_sum = dadd (stock_val_sum a) have_val_stock\<rparr>)"

fun req_loop :: "env \<Rightarrow> int \<Rightarrow> int \<Rightarrow> (int \<times> int) list \<Rightarrow> req_acc \<Rightarrow> py_error + req_acc" where
  "req_loop e n_runs display_target_runs [] a = Inr a"
| "req_loop e n_runs display_target_runs ((tid, need) # reqs) a =
     (case type_map e tid of
        None \<Rightarrow> req_loop e n_runs display_target_runs reqs a
      | Some et \<Rightarrow>
          (case req_row e n_runs display_target_runs tid need et a of
             Inl err \<Rightarrow> Inl err
           | Inr a' \<Rightarrow> req_loop e n_runs display_target_runs reqs a'))"

text \<open>The accumulators of the third loop, over the products.\<close>

record prod_acc =
  pacc_stock :: "int \<rightharpoonup> int"
  produced_qty_display :: int
  produced_value_display :: decimal
  produced_volume_display :: decimal
  pacc_name :: string

fun prod_loop :: "env \<Rightarrow> int \<Rightarrow> int \<Rightarrow> (int \<times> int) list \<Rightarrow> prod_acc \<Rightarrow> prod_acc" where
  "prod_loop e n_runs display_target_runs [] a = a"
| "prod_loop e n_runs display_target_runs ((tid, out_per_run) # prods) a =
     (let qty_actual = out_per_run * n_runs;
          qty_display = out_per_run * display_target_runs
      in case type_map e tid of
           None \<Rightarrow> prod_loop e n_runs display_target_runs prods a
         | Some etp \<Rightarrow>
            (let unit_out = price_out e tid
             in prod_loop e n_runs display_target_runs prods
                  \<lparr>pacc_stock = dict_inc (pacc_stock a) tid qty_actual,
                   produced_qty_display = produced_qty_display a + qty_display,
                   produced_value_display =
                     dadd (produced_value_display a) (dmul unit_out (of_int qty_display)),
                   produced_volume_display =
                     dadd (produced_volume_display a) (dmul (of_int qty_display) (volume etp)),
                   pacc_name = name etp\<rparr>))"

text \<open>
  \<open>build_step\<close>.  It works on a private copy of the supplemental supply and returns the
  step, the updated stock and the next cumulative profit; \<open>Inl\<close> is an exception.
\<close>

definition build_step ::
  "env \<Rightarrow> plan \<Rightarrow> int \<Rightarrow> (int \<rightharpoonup> int) \<Rightarrow> decimal \<Rightarrow> (int \<rightharpoonup> int)
     \<Rightarrow> py_error + (step \<times> (int \<rightharpoonup> int) \<times> decimal)" where
  "build_step e pl n_runs current_stock cum_profit supplemental_supply =
     (let per_run_reqs = per_run_requirements pl;
          per_run_prods = per_run_products pl;
          display_target_runs =
            display_loop (type_map e) current_stock supplemental_supply per_run_reqs 0
      in case req_loop e n_runs display_target_runs per_run_reqs
                \<lparr>acc_supply = supplemental_supply, acc_stock = current_stock, acc_inputs = [],
                 consumed_cost_raw = 0, have_val_sum = 0, need_val_sum = 0, m3_total_sum = 0,
                 m3_need_sum = 0, stock_val_sum = 0\<rparr> of
           Inl err \<Rightarrow> Inl err
         | Inr a \<Rightarrow>
            (let p = prod_loop e n_runs display_target_runs per_run_prods
                       \<lparr>pacc_stock = acc_stock a, produced_qty_display = 0,
                        produced_value_display = 0, produced_volume_display = 0,
                        pacc_name = []\<rparr>;
                 produced_net =
                   (if output_basis_buy e
                    then dmul (produced_value_display p)
                              (dsub 1 (ddiv (broker_fee_pct e) 100))
                    else dmul (produced_value_display p)
                              (dsub 1 (ddiv (dadd (broker_fee_pct e) (stax_pct e)) 100)));
                 fees = dmul (consumed_cost_raw a)
                          (ddiv (dadd (dadd (scc_pct e) (facility_tax_pct e)) (cost_index_pct e)) 100);
                 profit = dsub (dsub (dsub produced_net fees) (need_val_sum a)) (stock_val_sum a);
                 cum_profit_next = dadd cum_profit profit;
                 step_time_seconds = n_runs * time_per_run_seconds pl
             in Inr (\<lparr>kind = Reaction, title = plan_name pl, runs = n_runs,
                      inputs = acc_inputs a, product_name = pacc_name p,
                      produced_qty = produced_qty_display p,
                      produced_value = produced_value_display p,
                      produced_volume = produced_volume_display p,
                      value_have = have_val_sum a, value_need = need_val_sum a,
                      fees_inputs = fees, fees_display = fmt2 fees,
                      need_value = fmt2 (need_val_sum a),
                      product_stats_value = fmt2 (produced_value_display p),
                      product_stats_m3 = fmt2 (produced_volume_display p),
                      cumulative_profit = cum_profit_next, step_profit = Some profit,
                      stock_value_used = Some (fmt2 (stock_val_sum a)),
                      time_total_seconds = step_time_seconds,
                      product_ids = map fst per_run_prods,
                      requirement_ids = map fst per_run_reqs\<rparr>,
                     pacc_stock p, cum_profit_next)))"

section \<open>Reprocessing of unrefined intermediates\<close>

text \<open>
  \<open>d[k] = d.get(k, 0) + v\<close> on a dictionary kept as an association list in insertion
  order: an existing key keeps its place, a new key goes to the end.
\<close>

fun od_inc :: "('k \<times> int) list \<Rightarrow> 'k \<Rightarrow> int \<Rightarrow> ('k \<times> int) list" where
  "od_inc [] k v = [(k, v)]"
| "od_inc ((k', v') # d) k v = (if k' = k then (k', v' + v) # d else (k', v') # od_inc d k v)"

text \<open>
  \<open>reprocess_unrefined_in_stock\<close> (helper.py).  \<open>types\<close> is the \<open>EveType\<close> table.
  The source iterates over a Python set of the produced ids, whose order is unspecified;
  the model takes the order of the produced dictionary.  The function also caches in the
  type map the material types it meets; that side effect is not part of the model.
\<close>

fun credit_rows :: "decimal \<Rightarrow> decimal \<Rightarrow> (int \<times> int) list \<Rightarrow> (int \<times> int) list \<Rightarrow> (int \<times> int) list" where
  "credit_rows portions rate [] add = add"
| "credit_rows portions rate ((mtid, per_portion) # rows) add =
     (let out_units = produced_units per_portion portions rate
      in if out_units > 0 then credit_rows portions rate rows (od_inc add mtid out_units)
         else credit_rows portions rate rows add)"

fun reprocess_loop ::
  "mats_db \<Rightarrow> (int \<rightharpoonup> evetype) \<Rightarrow> decimal \<Rightarrow> (int \<times> int) list \<Rightarrow> int list
     \<Rightarrow> (int \<times> int) list \<times> (int \<times> int) list \<Rightarrow> (int \<times> int) list \<times> (int \<times> int) list" where
  "reprocess_loop mats types rate produced [] (add, used) = (add, used)"
| "reprocess_loop mats types rate produced (utid # unref_ids) (add, used) =
     (let qty = dget (map_of produced) utid
      in if qty \<le> 0 then reprocess_loop mats types rate produced unref_ids (add, used)
         else let psize = (case types utid of None \<Rightarrow> 1 | Some et \<Rightarrow> portion_size et);
                  portions = portions_of qty psize
              in reprocess_loop mats types rate produced unref_ids
                   (credit_rows portions rate (mats utid) add, od_inc used utid qty))"

definition reprocess_unrefined_in_stock ::
  "mats_db \<Rightarrow> (int \<rightharpoonup> evetype) \<Rightarrow> (int \<times> int) list \<Rightarrow> decimal
     \<Rightarrow> (int \<times> int) list \<times> (int \<times> int) list" where
  "reprocess_unrefined_in_stock mats types produced refine_rate =
     (if produced = [] then ([], [])
      else let tids = map fst produced;
               unref_ids = filter (\<lambda>tid. case types tid of None \<Rightarrow> False
                                          | Some t \<Rightarrow> is_unrefined_name (name t)) tids
           in if unref_ids = [] then ([], [])
              else reprocess_loop mats types refine_rate produced unref_ids ([], []))"

text \<open>The products of \<open>r\<close> runs of a plan: \<open>{t: q * r for t, q in per_run_products}\<close>.\<close>

definition produced_map :: "plan \<Rightarrow> int \<Rightarrow> (int \<times> int) list" where
  "produced_map pl r = map (\<lambda>(t, q). (t, q * r)) (per_run_products pl)"

text \<open>
  The ledger updates of \<open>InputView.post\<close> around a reprocessing: the clamped deduction
  \<open>cur[t] = max(0, cur.get(t, 0) - q)\<close>, the credit \<open>cur[t] = cur.get(t, 0) + q\<close>, the
  update after a feeder step and the update after a chain step.
\<close>

fun deduct_loop :: "(int \<times> int) list \<Rightarrow> (int \<rightharpoonup> int) \<Rightarrow> (int \<rightharpoonup> int)" where
  "deduct_loop [] cur = cur"
| "deduct_loop ((utid, uqty) # used) cur =
     deduct_loop used (cur(utid \<mapsto> max 0 (dget cur utid - uqty)))"

fun credit_loop :: "(int \<times> int) list \<Rightarrow> (int \<rightharpoonup> int) \<Rightarrow> (int \<rightharpoonup> int)" where
  "credit_loop [] cur = cur"
| "credit_loop ((rtid, rqty) # refined_add) cur =
     credit_loop refined_add (cur(rtid \<mapsto> dget cur rtid + rqty))"

definition feeder_ledger ::
  "(int \<rightharpoonup> int) \<Rightarrow> (int \<times> int) list \<Rightarrow> (int \<times> int) list \<times> (int \<times> int) list \<Rightarrow> (int \<rightharpoonup> int)" where
  "feeder_ledger cur produced = (\<lambda>(add_refined, used_unref).
     if add_refined \<noteq> [] then deduct_loop used_unref cur else deduct_loop produced cur)"

definition step_ledger ::
  "(int \<rightharpoonup> int) \<Rightarrow> (int \<times> int) list \<times> (int \<times> int) list \<Rightarrow> (int \<rightharpoonup> int)" where
  "step_ledger cur = (\<lambda>(refined_add, unref_used).
     if refined_add \<noteq> [] then credit_loop refined_add (deduct_loop unref_used cur) else cur)"

text \<open>The ledger invariant of the specification.\<close>

definition stock_nonneg :: "(int \<rightharpoonup> int) \<Rightarrow> bool" where
  "stock_nonneg stock = (\<forall>tid v. stock tid = Some v \<longrightarrow> 0 \<le> v)"

text \<open>
  Example data, the specification's scenario: the ledger holds 100 units of \<open>A\<close> (type 1),
  the recipe \<open>R1\<close> turns 10 \<open>A\<close> into 5 \<open>B\<close> (type 2) per run; \<open>A\<close> is priced 1 and
  \<open>B\<close> 10; the broker fee is 10 percent, the output basis is "buy", and the only
  facility charge is the fixed 4 percent.
\<close>

definition ex_types :: type_map where
  "ex_types = [1 \<mapsto> \<lparr>type_id = 1, name = ''A'', portion_size = 1, volume = 1\<rparr>,
               2 \<mapsto> \<lparr>type_id = 2, name = ''B'', portion_size = 1, volume = 1\<rparr>]"

definition ex_price :: "int \<Rightarrow> decimal" where
  "ex_price tid = (if tid = 1 then 1 else if tid = 2 then 10 else 0)"

definition ex_env :: env where
  "ex_env = \<lparr>type_map = ex_types, price_in = ex_price, price_out = ex_price,
             buyback_price = ex_price, buyback_mult = 9 / 10, use_buyback = False,
             broker_fee_pct = 10, output_basis_buy = True, stax_pct = 0, scc_pct = 4,
             facility_tax_pct = 0, cost_index_pct = 0\<rparr>"

definition ex_plan :: plan where
  "ex_plan = \<lparr>plan_name = ''R1'', per_run_requirements = [(1, 10)],
              per_run_products = [(2, 5)], time_per_run_seconds = 60, blueprint_type_id = 7\<rparr>"

section \<open>Reprocess steps and chain totals\<close>

text \<open>
  \<open>build_reprocess_step\<close> (helper.py): the value of the unrefined inputs, the value and
  volume of the refined outputs.  Fees, missing-material cost and profit of such a step are
  constant zero; it has no \<open>step_profit\<close> and no \<open>stock_value_used\<close>.
\<close>

fun reprocess_inputs :: "env \<Rightarrow> (int \<times> int) list \<Rightarrow> input_row list \<times> decimal \<Rightarrow> input_row list \<times> decimal" where
  "reprocess_inputs e [] (rows, hv_sum) = (rows, hv_sum)"
| "reprocess_inputs e ((tid, tneed) # unrefined_used) (rows, hv_sum) =
     (case type_map e tid of
        None \<Rightarrow> reprocess_inputs e unrefined_used (rows, hv_sum)
      | Some et \<Rightarrow>
          reprocess_inputs e unrefined_used
            (rows @ [\<lparr>row_type = tid, need_per_run = tneed, have_used = tneed,
                      total_need = tneed, need_missing = 0, from_children = 0,
                      from_stock = 0\<rparr>],
             dadd hv_sum (dmul (price_in e tid) (of_int tneed))))"

fun reprocess_outputs ::
  "env \<Rightarrow> (int \<times> int) list \<Rightarrow> decimal \<times> decimal \<times> int list \<Rightarrow> decimal \<times> decimal \<times> int list" where
  "reprocess_outputs e [] (pv, pvol, pids) = (pv, pvol, pids)"
| "reprocess_outputs e ((tid, q) # refined_add) (pv, pvol, pids) =
     (case type_map e tid of
        None \<Rightarrow> reprocess_outputs e refined_add (pv, pvol, pids)
      | Some etp \<Rightarrow>
          reprocess_outputs e refined_add
            (dadd pv (dmul (price_out e tid) (of_int q)),
             dadd pvol (dmul (of_int q) (volume etp)),
             pids @ [tid]))"

definition build_reprocess_step :: "env \<Rightarrow> (int \<times> int) list \<Rightarrow> (int \<times> int) list \<Rightarrow> step" where
  "build_reprocess_step e unrefined_used refined_add =
     (let (rows, hv_sum) = reprocess_inputs e unrefined_used ([], 0);
          (pv, pvol, pids) = reprocess_outputs e refined_add (0, 0, [])
      in \<lparr>kind = Reprocess, title = ''Refined materials'', runs = 1, inputs = rows,
          product_name = ''Refined materials'', produced_qty = sum_list (map snd refined_add),
          produced_value = pv, produced_volume = pvol, value_have = hv_sum, value_need = 0,
          fees_inputs = 0, fees_display = 0, need_value = 0,
          product_stats_value = fmt2 pv, product_stats_m3 = fmt2 pvol,
          cumulative_profit = 0, step_profit = None, stock_value_used = None,
          time_total_seconds = 0, product_ids = pids,
          requirement_ids = map fst unrefined_used\<rparr>)"

text \<open>
  How \<open>InputView.post\<close> threads the cumulative profit through a chain.  Every reaction
  step of a chain (feeder, root or later hop) is a \<open>build_step\<close> call that receives the
  profit returned by the previous call; every reprocess step is a
  \<open>build_reprocess_step\<close> whose \<open>cumulative_profit\<close> the caller overwrites with the
  current profit.  \<open>profit_thread e c steps c'\<close>: the rendered \<open>steps\<close> are threaded in
  that way from profit \<open>c\<close> to profit \<open>c'\<close>; the ledgers and supplies passed to the
  calls are arbitrary.
\<close>

inductive profit_thread :: "env \<Rightarrow> decimal \<Rightarrow> step list \<Rightarrow> decimal \<Rightarrow> bool" where
  thread_done: "profit_thread e c [] c"
| thread_reaction:
    "build_step e pl n stock c supplemental_supply = Inr (st, stock', c')
     \<Longrightarrow> profit_thread e c' steps c''
     \<Longrightarrow> profit_thread e c (st # steps) c''"
| thread_reprocess:
    "profit_thread e c steps c''
     \<Longrightarrow> profit_thread e c
           ((build_reprocess_step e unrefined_used refined_add)\<lparr>cumulative_profit := c\<rparr> # steps) c''"

text \<open>Python's \<open>sum\<close> over decimals: additions from the left, starting at \<open>0\<close>.\<close>

definition py_sum :: "decimal list \<Rightarrow> decimal" where
  "py_sum xs = foldl dadd 0 xs"

text \<open>
  The totals of a chain (views.py, after the hops): the final value is the displayed
  product value of the last reaction step; fees, missing-material cost and stock value
  used are sums of the displayed values of all steps.
\<close>

definition last_reaction_step :: "step list \<Rightarrow> step option" where
  "last_reaction_step rendered = find (\<lambda>st. kind st = Reaction) (rev rendered)"

definition final_value :: "step list \<Rightarrow> decimal" where
  "final_value rendered =
     (case last_reaction_step rendered of None \<Rightarrow> 0 | Some st \<Rightarrow> product_stats_value st)"

definition final_fees :: "step list \<Rightarrow> decimal" where
  "final_fees rendered = py_sum (map fees_display rendered)"

definition total_needed_cost :: "step list \<Rightarrow> decimal" where
  "total_needed_cost rendered = py_sum (map need_value rendered)"

definition total_stock_value_used :: "step list \<Rightarrow> decimal" where
  "total_stock_value_used rendered =
     py_sum (map (\<lambda>s. case stock_value_used s of None \<Rightarrow> 0 | Some v \<Rightarrow> v) rendered)"

definition final_profit :: "step list \<Rightarrow> decimal" where
  "final_profit rendered =
     (if rendered \<noteq> []
      then dsub (dsub (dsub (final_value rendered) (final_fees rendered))
                      (total_needed_cost rendered))
                (total_stock_value_used rendered)
      else 0)"

text \<open>The step profits of a chain, and their sum as the specification writes it.\<close>

definition step_profits :: "step list \<Rightarrow> decimal list" where
  "step_profits steps = concat (map (\<lambda>st. case step_profit st of None \<Rightarrow> [] | Some p \<Rightarrow> [p]) steps)"

definition spec_profit_sum :: "step list \<Rightarrow> decimal" where
  "spec_profit_sum steps = py_sum (step_profits steps)"

text \<open>
  Example data: the step that ten runs of \<open>R1\<close> on the ledger \<open>{A: 100}\<close> render.  With
  \<open>R1\<close> the only recipe of the catalogue, the chain of the request is this single step.
\<close>

definition ex_step1 :: step where
  "ex_step1 =
     \<lparr>kind = Reaction, title = ''R1'', runs = 10,
      inputs = [\<lparr>row_type = 1, need_per_run = 10, have_used = 100, total_need = 100,
                 need_missing = 0, from_children = 0, from_stock = 100\<rparr>],
      product_name = ''B'', produced_qty = 50, produced_value = 500,
      produced_volume = 50, value_have = 100, value_need = 0, fees_inputs = 4,
      fees_display = 4, need_value = 0, product_stats_value = 500,
      product_stats_m3 = 50, cumulative_profit = 346, step_profit = Some 346,
      stock_value_used = Some 100, time_total_seconds = 600, product_ids = [2],
      requirement_ids = [1]\<rparr>"

section \<open>Input parser\<close>

subsection \<open>Regular expressions\<close>

text \<open>
  The parser is written with Python's \<open>re\<close>.  Its patterns are transcribed into the
  datatype \<open>regex\<close>, and \<open>rmatch\<close> is the backtracking matcher: it lists every way the
  pattern matches a prefix of the subject, in the order in which \<open>re\<close> tries them (left
  alternative first, greedy repetition longest first, lazy repetition shortest first), as
  pairs of the unconsumed rest and the captured groups.  \<open>n0\<close> is the length of the whole
  subject, so that \<open>^\<close> can tell the start.  \<open>$\<close> matches at the end and before a final
  newline.  A repetition stops iterating on an empty iteration.
\<close>

datatype regex =
    Cls "char \<Rightarrow> bool"
  | Eps
  | Bol
  | Eol
  | Seq regex regex
  | Alt regex regex
  | Star regex
  | LazyStar regex
  | Grp string regex

type_synonym caps = "(string \<times> string) list"

function (sequential) rmatch :: "nat \<Rightarrow> regex \<Rightarrow> string \<Rightarrow> caps \<Rightarrow> (string \<times> caps) list" where
  "rmatch n0 (Cls P) s c = (case s of [] \<Rightarrow> [] | x # xs \<Rightarrow> if P x then [(xs, c)] else [])"
| "rmatch n0 Eps s c = [(s, c)]"
| "rmatch n0 Bol s c = (if length s = n0 then [(s, c)] else [])"
| "rmatch n0 Eol s c = (if s = [] \<or> s = [CHR 0x0A] then [(s, c)] else [])"
| "rmatch n0 (Seq r1 r2) s c = concat (map (\<lambda>(s', c'). rmatch n0 r2 s' c') (rmatch n0 r1 s c))"
| "rmatch n0 (Alt r1 r2) s c = rmatch n0 r1 s c @ rmatch n0 r2 s c"
| "rmatch n0 (Star r) s c =
     concat (map (\<lambda>(s', c'). if length s' < length s then rmatch n0 (Star r) s' c' else [])
                 (rmatch n0 r s c)) @ [(s, c)]"
| "rmatch n0 (LazyStar r) s c =
     (s, c) # concat (map (\<lambda>(s', c'). if length s' < length s then rmatch n0 (LazyStar r) s' c' else [])
                          (rmatch n0 r s c))"
| "rmatch n0 (Grp nm r) s c =
     map (\<lambda>(s', c'). (s', (nm, take (length s - length s') s) # c')) (rmatch n0 r s c)"
  by pat_completeness auto
termination
  by (relation "measures [\<lambda>(n0, r, s, c). size r, \<lambda>(n0, r, s, c). length s]") auto

definition Plus :: "regex \<Rightarrow> regex" where
  "Plus r = Seq r (Star r)"

definition LazyPlus :: "regex \<Rightarrow> regex" where
  "LazyPlus r = Seq r (LazyStar r)"

definition Opt :: "regex \<Rightarrow> regex" where
  "Opt r = Alt r Eps"

text \<open>\<open>m.group(name)\<close> of a group that took part in the match.\<close>

definition grp :: "caps \<Rightarrow> string \<Rightarrow> string" where
  "grp c nm = (case map_of c nm of None \<Rightarrow> [] | Some v \<Rightarrow> v)"

text \<open>\<open>re.match\<close> and \<open>re.fullmatch\<close>: the groups of the first match, if any.\<close>

definition re_match :: "regex \<Rightarrow> string \<Rightarrow> caps option" where
  "re_match r s = (case rmatch (length s) r s [] of [] \<Rightarrow> None | (s', c) # ms \<Rightarrow> Some c)"

definition re_fullmatch :: "regex \<Rightarrow> string \<Rightarrow> caps option" where
  "re_fullmatch r s =
     (case filter (\<lambda>(s', c). s' = []) (rmatch (length s) r s []) of
        [] \<Rightarrow> None | (s', c) # ms \<Rightarrow> Some c)"

text \<open>
  The first match that starts at the current position and consumes something: its rest.
  No pattern that the parser searches with can match the empty string.
\<close>

definition first_at :: "nat \<Rightarrow> regex \<Rightarrow> string \<Rightarrow> string option" where
  "first_at n0 r s =
     (case rmatch n0 r s [] of
        [] \<Rightarrow> None
      | (s', c) # ms \<Rightarrow> if length s' < length s then Some s' else None)"

text \<open>\<open>re.sub\<close>, \<open>re.split\<close> and \<open>re.finditer\<close>: leftmost non-overlapping matches.\<close>

function (sequential) re_sub_go :: "nat \<Rightarrow> regex \<Rightarrow> string \<Rightarrow> string \<Rightarrow> string" where
  "re_sub_go n0 r rep [] = []"
| "re_sub_go n0 r rep (x # xs) =
     (case first_at n0 r (x # xs) of
        None \<Rightarrow> x # re_sub_go n0 r rep xs
      | Some s' \<Rightarrow> rep @ re_sub_go n0 r rep s')"
  by pat_completeness auto
termination
  by (relation "measure (\<lambda>(n0, r, rep, s). length s)")
     (auto simp: first_at_def split: list.splits if_splits)

definition re_sub :: "regex \<Rightarrow> string \<Rightarrow> string \<Rightarrow> string" where
  "re_sub r rep s = re_sub_go (length s) r rep s"

function (sequential) re_split_go :: "nat \<Rightarrow> regex \<Rightarrow> string \<Rightarrow> string \<Rightarrow> string list" where
  "re_split_go n0 r cur [] = [rev cur]"
| "re_split_go n0 r cur (x # xs) =
     (case first_at n0 r (x # xs) of
        None \<Rightarrow> re_split_go n0 r (x # cur) xs
      | Some s' \<Rightarrow> rev cur # re_split_go n0 r [] s')"
  by pat_completeness auto
termination
  by (relation "measure (\<lambda>(n0, r, cur, s). length s)")
     (auto simp: first_at_def split: list.splits if_splits)

definition re_split :: "regex \<Rightarrow> string \<Rightarrow> string list" where
  "re_split r s = re_split_go (length s) r [] s"

function (sequential) re_finditer_go :: "nat \<Rightarrow> regex \<Rightarrow> nat \<Rightarrow> string \<Rightarrow> (nat \<times> string) list" where
  "re_finditer_go n0 r i [] = []"
| "re_finditer_go n0 r i (x # xs) =
     (case first_at n0 r (x # xs) of
        None \<Rightarrow> re_finditer_go n0 r (Suc i) xs
      | Some s' \<Rightarrow>
          (i, take (length (x # xs) - length s') (x # xs))
            # re_finditer_go n0 r (i + (length (x # xs) - length s')) s')"
  by pat_completeness auto
termination
  by (relation "measure (\<lambda>(n0, r, i, s). length s)")
     (auto simp: first_at_def split: list.splits if_splits)

definition re_finditer :: "regex \<Rightarrow> string \<Rightarrow> (nat \<times> string) list" where
  "re_finditer r s = re_finditer_go (length s) r 0 s"

subsection \<open>Character classes and string methods\<close>

definition is_digit :: "char \<Rightarrow> bool" where
  "is_digit c = (c \<in> set ''0123456789'')"

text \<open>\<open>\s\<close> and \<open>str.isspace\<close> below code point 256.\<close>

definition is_space :: "char \<Rightarrow> bool" where
  "is_space c = ((of_char c :: nat) \<in> set [9, 10, 11, 12, 13, 28, 29, 30, 31, 32, 133, 160])"

definition any_char :: "char \<Rightarrow> bool" where
  "any_char c = (c \<noteq> CHR 0x0A)"

definition qty_char :: "char \<Rightarrow> bool" where
  "qty_char c = (is_digit c \<or> c \<in> set '',._kKmMbB+-'')"

definition times_char :: "char \<Rightarrow> bool" where
  "times_char c = (c = CHR ''x'' \<or> c = CHR 0xD7)"

definition strip_with :: "(char \<Rightarrow> bool) \<Rightarrow> string \<Rightarrow> string" where
  "strip_with P s = rev (dropWhile P (rev (dropWhile P s)))"

definition rstrip_with :: "(char \<Rightarrow> bool) \<Rightarrow> string \<Rightarrow> string" where
  "rstrip_with P s = rev (dropWhile P (rev s))"

definition py_strip :: "string \<Rightarrow> string" where
  "py_strip s = strip_with is_space s"

subsection \<open>Numbers\<close>

text \<open>
  \<open>_parse_number_token\<close>.  The source converts the matched number with \<open>float\<close> and
  truncates the product with the magnitude; the model computes the product exactly, which
  is what binary floating point gives whenever the number and the product are exactly
  representable (integers below \<open>2 ^ 53\<close>, halves, quarters).  \<open>int\<close> of the fallback
  accepts an optional sign and digits.
\<close>

definition digits_val :: "string \<Rightarrow> int" where
  "digits_val ds = foldl (\<lambda>a c. 10 * a + (of_char c - 48)) 0 ds"

definition py_int :: "string \<Rightarrow> int option" where
  "py_int s =
     (case s of
        [] \<Rightarrow> None
      | c # cs \<Rightarrow>
          let (sgn, ds) = (if c = CHR ''-'' then (- 1, cs)
                           else if c = CHR ''+'' then (1, cs) else (1, s))
          in if ds \<noteq> [] \<and> list_all is_digit ds then Some (sgn * digits_val ds) else None)"

definition float_of :: "string \<Rightarrow> rat" where
  "float_of s =
     (let (sgn, ds) = (case s of
                         [] \<Rightarrow> (1, [])
                       | c # cs \<Rightarrow> if c = CHR ''-'' then (- 1, cs)
                                   else if c = CHR ''+'' then (1, cs) else (1, s));
          ip = takeWhile is_digit ds;
          fp = drop (Suc (length ip)) ds
      in sgn * (of_int (digits_val ip) + of_int (digits_val fp) / 10 ^ length fp))"

definition number_re :: regex where
  "number_re =
     Seq (Grp ''1'' (Seq (Opt (Cls (\<lambda>c. c \<in> set ''-+'')))
                    (Seq (Plus (Cls is_digit))
                         (Opt (Seq (Cls (\<lambda>c. c = CHR ''.'')) (Plus (Cls is_digit)))))))
         (Opt (Grp ''2'' (Cls (\<lambda>c. c \<in> set ''kmb''))))"

definition parse_number_token :: "string \<Rightarrow> int" where
  "parse_number_token tok =
     (let s0 = lower (filter (\<lambda>c. c \<noteq> CHR ''_'') (filter (\<lambda>c. c \<noteq> CHR '','') (py_strip tok)));
          s = re_sub (Cls (\<lambda>c. \<not> (is_digit c \<or> c \<in> set ''.kmb-+''))) [] s0
      in case re_fullmatch number_re s of
           None \<Rightarrow>
             (let s2 = re_sub (Cls (\<lambda>c. \<not> (is_digit c \<or> c \<in> set ''-+''))) [] tok
              in case py_int s2 of None \<Rightarrow> 0 | Some v \<Rightarrow> v)
         | Some m \<Rightarrow>
             (let num = float_of (grp m ''1'');
                  suf = grp m ''2'';
                  mult = (if suf = ''k'' then 1000 else if suf = ''m'' then 1000000
                          else if suf = ''b'' then 1000000000 else 1)
              in to_integral_down (num * mult)))"

subsection \<open>Lines\<close>

definition ws_run :: regex where
  "ws_run = Plus (Cls is_space)"

definition clean_name_fragment :: "string \<Rightarrow> string" where
  "clean_name_fragment s0 =
     (let s1 = strip_with (\<lambda>c. c = CHR 0x27) (strip_with (\<lambda>c. c = CHR 0x22) (py_strip s0));
          s2 = re_sub ws_run '' '' s1
      in re_sub (Seq (Star (Cls is_space))
                  (Seq (Cls (\<lambda>c. c \<in> set '':|,-'')) (Seq (Star (Cls is_space)) Eol))) [] s2)"

definition line_seps :: regex where
  "line_seps = Plus (Cls (\<lambda>c. c = CHR '';'' \<or> c = CHR 0x0A \<or> c = CHR 0x0D))"

definition part_seps :: regex where
  "part_seps =
     Alt (Seq (Cls is_space) (Seq (Cls is_space) (Star (Cls is_space))))
         (Alt (Cls (\<lambda>c. c = CHR 0x09)) (Cls (\<lambda>c. c = CHR ''|'')))"

definition qty_re :: regex where
  "qty_re = Plus (Cls qty_char)"

text \<open>The five line grammars, in the order in which the parser tries them.\<close>

definition name_x_qty :: regex where
  "name_x_qty =
     Seq Bol (Seq (Grp ''name'' (LazyPlus (Cls any_char)))
       (Seq (Star (Cls is_space)) (Seq (Cls times_char)
       (Seq (Star (Cls is_space)) (Seq (Grp ''qty'' qty_re)
       (Seq (Star (Cls is_space)) Eol))))))"

definition qty_x_name :: regex where
  "qty_x_name =
     Seq Bol (Seq (Grp ''qty'' qty_re)
       (Seq (Star (Cls is_space)) (Seq (Cls times_char)
       (Seq (Star (Cls is_space)) (Seq (Grp ''name'' (LazyPlus (Cls any_char)))
       (Seq (Star (Cls is_space)) Eol))))))"

definition name_sep_qty :: regex where
  "name_sep_qty =
     Seq Bol (Seq (Grp ''name'' (LazyPlus (Cls any_char)))
       (Seq (Star (Cls is_space)) (Seq (Cls (\<lambda>c. c \<in> set '':-''))
       (Seq (Star (Cls is_space)) (Seq (Grp ''qty'' qty_re)
       (Seq (Star (Cls is_space)) Eol))))))"

definition name_qty :: regex where
  "name_qty =
     Seq Bol (Seq (Grp ''name'' (Seq (Star (Cls any_char)) (Cls (\<lambda>c. \<not> is_digit c))))
       (Seq (Plus (Cls is_space)) (Seq (Grp ''qty'' qty_re)
       (Seq (Star (Cls is_space)) Eol))))"

definition qty_name :: regex where
  "qty_name =
     Seq Bol (Seq (Grp ''qty'' qty_re)
       (Seq (Plus (Cls is_space)) (Seq (Grp ''name'' (LazyPlus (Cls any_char)))
       (Seq (Star (Cls is_space)) Eol))))"

text \<open>
  One grammar applied to a line: the \<open>add\<close> call it leads to, as the raw name and the
  parsed quantity.
\<close>

definition match_add :: "regex \<Rightarrow> string \<Rightarrow> (string \<times> int) option" where
  "match_add r line =
     (case re_match r line of
        None \<Rightarrow> None
      | Some m \<Rightarrow> Some (grp m ''name'', parse_number_token (grp m ''qty'')))"

fun first_grammar :: "regex list \<Rightarrow> string \<Rightarrow> (string \<times> int) option" where
  "first_grammar [] line = None"
| "first_grammar (r # rs) line =
     (case match_add r line of None \<Rightarrow> first_grammar rs line | Some a \<Rightarrow> Some a)"

definition chunk_adds :: "string \<Rightarrow> (string \<times> int) list" where
  "chunk_adds s0 =
     (let s = py_strip s0
      in if s = [] then []
         else case match_add name_qty s of
                Some a \<Rightarrow> [a]
              | None \<Rightarrow> if re_fullmatch qty_re s \<noteq> None then [] else [(s, 1)])"

text \<open>The \<open>add\<close> calls that one element of the line split leads to, in order.\<close>

definition line_adds :: "string \<Rightarrow> (string \<times> int) list" where
  "line_adds raw_line =
     (let line0 = py_strip raw_line
      in if line0 = [] then []
         else
          let line1 = map (\<lambda>c. if c = CHR 0x09 then CHR '' '' else c) line0;
              line = py_strip (re_sub ws_run '' '' line1)
          in case first_grammar [name_x_qty, qty_x_name, name_sep_qty, name_qty, qty_name] line of
               Some a \<Rightarrow> [a]
             | None \<Rightarrow>
                 let chunks = re_split part_seps line
                 in if length chunks > 1 then concat (map chunk_adds chunks)
                    else case rev (re_finditer qty_re line) of
                           (start, tok) # ms \<Rightarrow>
                             (let qty = parse_number_token tok;
                                  nm = py_strip (rstrip_with (\<lambda>c. c = CHR '','')
                                                  (py_strip (take start line)))
                              in if nm \<noteq> [] then [(nm, qty)] else [])
                         | [] \<Rightarrow> [(line, 1)])"

text \<open>The local function \<open>add\<close> (here \<open>agg_add\<close>) on the dictionary \<open>agg\<close>, kept in insertion order.\<close>

definition agg_add :: "(string \<times> int) list \<Rightarrow> string \<times> int \<Rightarrow> (string \<times> int) list" where
  "agg_add agg = (\<lambda>(nm, qty).
     let name_clean = clean_name_fragment nm
     in if name_clean = [] \<or> qty \<le> 0 then agg else od_inc agg name_clean qty)"

definition parse_input_lines :: "string \<Rightarrow> (string \<times> int) list" where
  "parse_input_lines raw =
     (if raw = [] then []
      else foldl agg_add [] (concat (map line_adds (re_split line_seps raw))))"

text \<open>
  The \<open>add\<close> calls that take effect: cleaned name and quantity of the calls with a
  non-empty cleaned name and a positive quantity.  And the text of a list of lines, one per
  line.
\<close>

definition effective_adds :: "(string \<times> int) list \<Rightarrow> (string \<times> int) list" where
  "effective_adds adds =
     filter (\<lambda>(nm, qty). nm \<noteq> [] \<and> 0 < qty) (map (\<lambda>(nm, qty). (clean_name_fragment nm, qty)) adds)"

fun join_lines :: "string list \<Rightarrow> string" where
  "join_lines [] = []"
| "join_lines [l] = l"
| "join_lines (l # l' # ls) = l @ CHR 0x0A # join_lines (l' # ls)"

definition is_line :: "string \<Rightarrow> bool" where
  "is_line l = (l \<noteq> [] \<and> (\<forall>c \<in> set l. c \<noteq> CHR '';'' \<and> c \<noteq> CHR 0x0A \<and> c \<noteq> CHR 0x0D))"

section \<open>Price lookup\<close>













section \<open>Capacity: proofs\<close>

lemma py_min_fold: "fold min xs (x::int) = Min (set (x # xs))"
  by (simp only: Min.set_eq_fold)

lemma py_min_Min: "xs \<noteq> [] \<Longrightarrow> py_min xs = Min (set xs)"
  by (cases xs) (simp_all add: py_min_fold del: Min.insert set_simps)

lemma caps_all_gating:
  "caps_all stock tm reqs = map (\<lambda>(tid, need). dget stock tid div need) (gating tm reqs)"
  by (induction stock tm reqs rule: caps_all.induct) (auto simp: gating_def)

lemma runcap_loop_gating:
  "runcap_loop stock tm reqs caps have_any =
     (caps @ map (\<lambda>(tid, need). dget stock tid div need) (gating_present stock tm reqs),
      have_any \<or> gating_present stock tm reqs \<noteq> [])"
  by (induction stock tm reqs caps have_any rule: runcap_loop.induct)
     (auto simp: gating_def gating_present_def Let_def)

lemma runs_cap_spec: "runs_cap stock reqs tm = spec_capacity stock (gating tm reqs)"
  by (simp add: runs_cap_def spec_capacity_def caps_all_gating py_min_Min Let_def)

lemma runcap_with_present_spec:
  "runcap_with_present stock reqs tm = spec_capacity stock (gating_present stock tm reqs)"
  by (simp add: runcap_with_present_def spec_capacity_def runcap_loop_gating py_min_Min)

lemma spec_capacity_sound:
  assumes "(tid, need) \<in> set g" and "0 < need"
  shows "spec_capacity stock g * need \<le> dget stock tid"
proof -
  from assms(1) have ne: "g \<noteq> []" by auto
  have "spec_capacity stock g \<le> dget stock tid div need"
    using assms(1) ne by (auto simp: spec_capacity_def intro!: Min_le)
  then have "spec_capacity stock g * need \<le> (dget stock tid div need) * need"
    using assms(2) by (simp add: mult_right_mono)
  also have "\<dots> \<le> dget stock tid"
    using div_mult_mod_eq[of "dget stock tid" need] pos_mod_sign[of need "dget stock tid"] assms(2)
    by linarith
  finally show ?thesis .
qed

text \<open>
  Claim C1 (as amended).  The capacity of a priced plan (\<open>runs_cap\<close>, views.py) is the
  minimum, over all non-fuel requirements with a positive per-run quantity, of
  \<open>ledger[material] div need\<close>, a material absent from the ledger counting as \<open>0\<close>; it is
  \<open>0\<close> when there is no such requirement; fuel requirements never gate; and
  \<open>runs * need \<le> ledger[material]\<close> for each gating requirement.  The chain builder's
  \<open>runcap_with_present\<close> is the same minimum taken only over the gating requirements that
  the ledger holds a positive quantity of, and is sound for exactly those.
\<close>

theorem C1_capacity:
  "runs_cap stock reqs tm = spec_capacity stock (gating tm reqs)
   \<and> (\<forall>(tid, need) \<in> set (gating tm reqs). runs_cap stock reqs tm * need \<le> dget stock tid)
   \<and> runcap_with_present stock reqs tm = spec_capacity stock (gating_present stock tm reqs)
   \<and> (\<forall>(tid, need) \<in> set (gating_present stock tm reqs).
         runcap_with_present stock reqs tm * need \<le> dget stock tid)"
proof -
  have pos: "0 < need" if "(tid, need) \<in> set (gating tm reqs)" for tid need
    using that by (simp add: gating_def)
  have pos': "0 < need" if "(tid, need) \<in> set (gating_present stock tm reqs)" for tid need
    using that by (simp add: gating_present_def gating_def)
  show ?thesis
    using pos pos' by (auto simp: runs_cap_spec runcap_with_present_spec intro: spec_capacity_sound)
qed

text \<open>
  The specification's scenario: ledger \<open>{A: 100}\<close> and a recipe requiring \<open>10 \<times> A\<close>
  give capacity \<open>10\<close>, from both functions, and \<open>10 * 10 \<le> 100\<close>.
\<close>

theorem C1_capacity_witness:
  "runs_cap [1 \<mapsto> 100] [(1, 10)] Map.empty = 10
   \<and> runcap_with_present [1 \<mapsto> 100] [(1, 10)] Map.empty = 10
   \<and> (1, 10) \<in> set (gating Map.empty [(1, 10)])
   \<and> (1, 10) \<in> set (gating_present [1 \<mapsto> 100] Map.empty [(1, 10)])
   \<and> runs_cap [1 \<mapsto> 100] [(1, 10)] Map.empty * 10 \<le> dget [1 \<mapsto> 100] 1"
  using C1_capacity [of "[1 \<mapsto> 100]" "[(1, 10)]" Map.empty]
  by (simp add: gating_def gating_present_def spec_capacity_def is_fuel_id_def dget_def)

text \<open>
  Claim C1 as stated fails for \<open>runcap_with_present\<close>: with ledger \<open>{1: 100}\<close> and
  requirements \<open>{1: 10, 2: 5}\<close> the absent material \<open>2\<close> does not count as capacity
  \<open>0\<close>; the function returns \<open>10\<close>, and \<open>10 * 5\<close> exceeds the ledger's \<open>0\<close>.
\<close>

theorem C1_capacity_counterexample:
  "runcap_with_present [1 \<mapsto> 100] [(1, 10), (2, 5)] Map.empty = 10
   \<and> spec_capacity [1 \<mapsto> 100] (gating Map.empty [(1, 10), (2, 5)]) = 0
   \<and> \<not> runcap_with_present [1 \<mapsto> 100] [(1, 10), (2, 5)] Map.empty * 5 \<le> dget [1 \<mapsto> 100] 2"
  by (simp add: runcap_with_present_def gating_def spec_capacity_def is_fuel_id_def dget_def)

section \<open>Decimal arithmetic: proofs\<close>

lemma round_half_even_of_int: "round_half_even (of_int n) = n"
  unfolding round_half_even_def Let_def floor_of_int by simp

lemma powi_pos: "0 < (10::rat) powi a"
  by simp

lemma powi_mono10: "a \<le> b \<Longrightarrow> (10::rat) powi a \<le> 10 powi b"
  by (rule power_int_increasing) simp_all

lemma powi_smono10: "a < b \<Longrightarrow> (10::rat) powi a < 10 powi b"
  by (rule power_int_strict_increasing) simp_all

lemma adjusted_unique:
  assumes "(10::rat) powi a \<le> y" "y < 10 powi (a + 1)" "10 powi b \<le> y" "y < 10 powi (b + 1)"
  shows "a = b"
proof (rule ccontr)
  assume "a \<noteq> b"
  then consider "a + 1 \<le> b" | "b + 1 \<le> a" by linarith
  then show False
  proof cases
    case 1
    then have "(10::rat) powi (a + 1) \<le> 10 powi b" by (rule powi_mono10)
    with assms show False by linarith
  next
    case 2
    then have "(10::rat) powi (b + 1) \<le> 10 powi a" by (rule powi_mono10)
    with assms show False by linarith
  qed
qed

lemma nat_digits_bounds:
  assumes "0 < (p::int)"
  shows "(10::rat) powi (int (floorlog 10 (nat p)) - 1) \<le> of_int p"
    and "of_int p < (10::rat) powi (int (floorlog 10 (nat p)))"
proof -
  let ?d = "floorlog 10 (nat p)"
  from assms have np: "0 < nat p" by simp
  from floorlog_bounds[OF np, of 10]
  have lo: "10 ^ (?d - 1) \<le> nat p" and hi: "nat p < 10 ^ ?d" by simp_all
  have dpos: "0 < ?d" using np by (simp add: floorlog_eq_zero_iff Suc_le_eq not_le[symmetric])
  have "(of_nat (10 ^ (?d - 1)) :: rat) \<le> of_nat (nat p)" using lo by (simp only: of_nat_le_iff)
  then have l: "(10::rat) powi (int (?d - 1)) \<le> of_int p" using assms by simp
  have i: "int (?d - 1) = int ?d - 1" using dpos by linarith
  show "(10::rat) powi (int ?d - 1) \<le> of_int p" using l unfolding i .
  have "(of_nat (nat p) :: rat) < of_nat (10 ^ ?d)" using hi by (simp only: of_nat_less_iff)
  then show "of_int p < (10::rat) powi (int ?d)" using assms by simp
qed

lemma adjusted_bounds:
  assumes "0 < y"
  shows "10 powi (adjusted y) \<le> y \<and> y < 10 powi (adjusted y + 1)"
proof -
  obtain p q where pq: "quotient_of y = (p, q)" by (cases "quotient_of y")
  then have q: "0 < q" and y: "y = of_int p / of_int q"
    using quotient_of_denom_pos quotient_of_div by blast+
  have p: "0 < p" using assms q y by (simp add: zero_less_divide_iff)
  let ?dp = "int (floorlog 10 (nat p))" and ?dq = "int (floorlog 10 (nat q))"
  let ?a0 = "?dp - ?dq"
  note bp = nat_digits_bounds[OF p] and bq = nat_digits_bounds[OF q]
  have qr: "(0::rat) < of_int q" using q by simp
  have e1: "(10::rat) powi (?dp - (?dq - 1)) = 10 powi ?dp / 10 powi (?dq - 1)"
    by (rule power_int_diff) simp
  have e2: "(10::rat) powi ((?dp - 1) - ?dq) = 10 powi (?dp - 1) / 10 powi ?dq"
    by (rule power_int_diff) simp
  have i1: "?dp - (?dq - 1) = ?a0 + 1" and i2: "(?dp - 1) - ?dq = ?a0 - 1" by linarith+
  have "y < 10 powi ?dp / 10 powi (?dq - 1)"
    unfolding y using bp bq p q
    by (intro frac_less) (simp_all add: less_imp_le)
  then have up: "y < 10 powi (?a0 + 1)"
    unfolding e1[symmetric] i1 .
  have "10 powi (?dp - 1) / 10 powi ?dq < y"
    unfolding y using bp bq p q
    by (intro frac_less2) (simp_all add: less_imp_le)
  then have lo: "10 powi (?a0 - 1) < y"
    unfolding e2[symmetric] i2 .
  have adj: "adjusted y = (if 10 powi ?a0 \<le> y then ?a0 else ?a0 - 1)"
    by (simp add: adjusted_def pq)
  show ?thesis
  proof (cases "10 powi ?a0 \<le> y")
    case True
    then have "adjusted y = ?a0" by (simp only: adj if_True)
    then show ?thesis using True up by (simp only:)
  next
    case False
    then have a: "adjusted y = ?a0 - 1" by (simp only: adj if_False)
    from False have "y < 10 powi ?a0" by simp
    moreover have "?a0 - 1 + 1 = ?a0" by simp
    ultimately show ?thesis using lo unfolding a by (simp only: order.strict_implies_order)
  qed
qed

lemma dec_round_exact:
  assumes "\<bar>c\<bar> < 10 ^ 28"
  shows "dec_round (of_int c * 10 powi j) = of_int c * 10 powi j"
proof (cases "c = 0")
  case True
  then show ?thesis by (simp add: dec_round_def)
next
  case False
  let ?x = "of_int c * (10::rat) powi j"
  let ?d = "int (floorlog 10 (nat \<bar>c\<bar>))"
  from False have cpos: "0 < \<bar>c\<bar>" by simp
  note b = nat_digits_bounds[OF cpos]
  have x0: "?x \<noteq> 0" using False by simp
  have ax: "\<bar>?x\<bar> = of_int \<bar>c\<bar> * 10 powi j" by (simp add: abs_mult)
  have xpos: "0 < \<bar>?x\<bar>" using x0 by simp
  have lo: "10 powi (?d - 1 + j) \<le> \<bar>?x\<bar>"
    unfolding ax power_int_add[of "10::rat" "?d - 1" j, simplified]
    using b(1) by (simp add: mult_right_mono)
  have hi: "\<bar>?x\<bar> < 10 powi (?d - 1 + j + 1)"
  proof -
    have "of_int \<bar>c\<bar> * (10::rat) powi j < 10 powi ?d * 10 powi j"
      using b(2) by (simp add: mult_strict_right_mono)
    also have "\<dots> = 10 powi (?d + j)" by (simp add: power_int_add)
    finally show ?thesis unfolding ax by (simp add: add.commute add.left_commute)
  qed
  have adj: "adjusted \<bar>?x\<bar> = ?d - 1 + j"
    using adjusted_unique[OF conjunct1[OF adjusted_bounds[OF xpos]] conjunct2[OF adjusted_bounds[OF xpos]] lo hi] .
  have d28: "?d \<le> 28"
  proof -
    have "nat \<bar>c\<bar> < 10 ^ 28" using assms by (simp add: nat_less_iff)
    then have "floorlog 10 (nat \<bar>c\<bar>) \<le> 28" by (intro floorlog_leI) simp_all
    then show ?thesis by simp
  qed
  define k where "k = nat (28 - ?d)"
  have e: "adjusted \<bar>?x\<bar> - 27 = j - int k" unfolding adj k_def using d28 by simp
  have "?x / 10 powi (j - int k) = of_int c * (10 powi j / 10 powi (j - int k))" by simp
  also have "10 powi j / (10::rat) powi (j - int k) = 10 powi (j - (j - int k))"
    by (rule power_int_diff[symmetric]) simp
  also have "j - (j - int k) = int k" by simp
  finally have q: "?x / 10 powi (j - int k) = of_int (c * 10 ^ k)" by simp
  have "dec_round ?x = of_int (round_half_even (?x / 10 powi (j - int k))) * 10 powi (j - int k)"
    using x0 by (simp only: dec_round_def e Let_def if_False)
  also have "\<dots> = of_int (c * 10 ^ k) * 10 powi (j - int k)"
    by (simp only: q round_half_even_of_int)
  also have "\<dots> = of_int c * (10 powi (int k) * 10 powi (j - int k))" by simp
  also have "10 powi (int k) * (10::rat) powi (j - int k) = 10 powi (int k + (j - int k))"
    by (rule power_int_add[symmetric]) simp
  also have "int k + (j - int k) = j" by simp
  finally show ?thesis .
qed

lemma representable_exact: "representable x \<Longrightarrow> dec_round x = x"
  unfolding representable_def using dec_round_exact by blast


lemma dec_round_0 [simp]: "dec_round 0 = 0"
  by (simp add: dec_round_def)

lemma dec_round_6places:
  assumes "x * 10 ^ 6 = of_int \<lfloor>x * 10 ^ 6\<rfloor>" and "\<bar>\<lfloor>x * 10 ^ 6\<rfloor>\<bar> < 10 ^ 28"
  shows "dec_round x = x"
proof -
  have "x = x * 10 ^ 6 * 10 powi (- 6)" by (simp add: power_int_minus)
  also have "\<dots> = of_int \<lfloor>x * 10 ^ 6\<rfloor> * 10 powi (- 6)" using assms(1) by simp
  finally have "x = of_int \<lfloor>x * 10 ^ 6\<rfloor> * 10 powi (- 6)" .
  then show ?thesis using dec_round_exact[OF assms(2), of "- 6"] by simp
qed

lemma dec_round_at:
  assumes "10 powi (j + 27) \<le> \<bar>x\<bar>" and "\<bar>x\<bar> < 10 powi (j + 28)"
  shows "dec_round x = of_int (round_half_even (x / 10 powi j)) * 10 powi j"
proof -
  have "(0::rat) < 10 powi (j + 27)" by simp
  with assms(1) have xpos: "0 < \<bar>x\<bar>" by linarith
  then have x0: "x \<noteq> 0" by simp
  have hi: "\<bar>x\<bar> < 10 powi (j + 27 + 1)" using assms(2) by (simp add: add.commute add.left_commute)
  have adj: "adjusted \<bar>x\<bar> = j + 27"
    using adjusted_unique[OF conjunct1[OF adjusted_bounds[OF xpos]]
        conjunct2[OF adjusted_bounds[OF xpos]] assms(1) hi] .
  show ?thesis using x0 by (simp add: dec_round_def adj)
qed

section \<open>Efficiency bonus: proofs\<close>

lemma floor_rat_numeral_div [simp]:
  "\<lfloor>(numeral a :: rat) / numeral b\<rfloor> = numeral a div numeral b"
  using floor_divide_of_int_eq[of "numeral a" "numeral b", where ?'a = rat] by simp

lemma floor_rat_neg_numeral_div [simp]:
  "\<lfloor>- ((numeral a :: rat) / numeral b)\<rfloor> = - numeral a div numeral b"
  using floor_divide_of_int_eq[of "- numeral a" "numeral b", where ?'a = rat] by simp

lemma ceiling_rat_numeral_div [simp]:
  "\<lceil>(numeral a :: rat) / numeral b\<rceil> = - (- numeral a div numeral b)"
  unfolding ceiling_def by simp

lemma ceiling_rat_neg_numeral_div [simp]:
  "\<lceil>- ((numeral a :: rat) / numeral b)\<rceil> = - (numeral a div numeral b)"
  unfolding ceiling_def by simp

lemma me_eff_exact:
  assumes "me = of_int k / 1000" "0 \<le> k" "k \<le> 100000"
  shows "me_eff me = of_int (100000 - k) * 10 powi (-5)"
proof -
  have a: "100 - me = of_int (100000 - k) * 10 powi (-3)"
    unfolding assms(1) by (simp add: power_int_minus field_simps)
  have r1: "dsub 100 me = 100 - me"
    unfolding dsub_def a using assms by (intro dec_round_exact) simp
  have b: "(100 - me) / 100 = of_int (100000 - k) * 10 powi (-5)"
    unfolding assms(1) by (simp add: power_int_minus field_simps)
  have "ddiv (100 - me) 100 = (100 - me) / 100"
    unfolding ddiv_def b using assms by (intro dec_round_exact) simp
  then show ?thesis unfolding me_eff_def r1 b .
qed

lemma dmul_eff_exact:
  assumes "me = of_int k / 1000" "0 \<le> k" "k \<le> 100000" "\<bar>base_q\<bar> < 10 ^ 23"
  shows "dmul (of_int base_q) (me_eff me) = of_int base_q * (100 - me) / 100"
proof -
  have "\<bar>base_q * (100000 - k)\<bar> = \<bar>base_q\<bar> * (100000 - k)"
    using assms by (simp add: abs_mult)
  also have "\<dots> \<le> \<bar>base_q\<bar> * 100000" using assms by (intro mult_left_mono) simp_all
  also have "\<dots> < 10 ^ 23 * 100000" using assms(4) by simp
  finally have bound: "\<bar>base_q * (100000 - k)\<bar> < 10 ^ 28" by simp
  have "of_int base_q * me_eff me = of_int (base_q * (100000 - k)) * 10 powi (-5)"
    unfolding me_eff_exact[OF assms(1-3)] by simp
  then have "dmul (of_int base_q) (me_eff me) = of_int (base_q * (100000 - k)) * 10 powi (-5)"
    unfolding dmul_def using dec_round_exact[OF bound, of "-5"] by (simp only:)
  also have "\<dots> = of_int base_q * (100 - me) / 100"
    unfolding assms(1) by (simp add: power_int_minus field_simps)
  finally show ?thesis .
qed

text \<open>
  Claim C6 (as amended).  For a base per-run quantity below \<open>10 ^ 23\<close> in absolute value (the
  catalogue stores it in a 32-bit column) and an efficiency bonus between 0 and 100 with
  three decimals (\<open>me_bonus_pct\<close> quantizes to \<open>0.001\<close>), the effective per-run
  quantity is exactly \<open>ceil(base_qty * (100 - bonus) / 100)\<close>: no step of the decimal
  computation rounds.
\<close>

theorem C6_ceiling_efficiency:
  assumes "me_pct = of_int k / 1000" and "0 \<le> me_pct" and "me_pct \<le> 100"
    and "\<forall>(tid, base_q) \<in> set reqs. \<bar>base_q\<bar> < 10 ^ 23"
  shows "apply_me_to_requirements reqs me_pct =
           map (\<lambda>(tid, base_q). (tid, \<lceil>of_int base_q * (100 - me_pct) / 100\<rceil>)) reqs"
proof -
  have k: "0 \<le> k" "k \<le> 100000" using assms(1-3) by simp_all
  show ?thesis
    unfolding apply_me_to_requirements_def Let_def
    using assms(4) by (auto simp: dmul_eff_exact[OF assms(1) k])
qed

text \<open>A T2 rig in low-security space, bonus 2.4: 100 units become 98, 7 stay 7.\<close>

theorem C6_ceiling_efficiency_witness:
  "(2.4::rat) = of_int 2400 / 1000 \<and> (0::rat) \<le> 2.4 \<and> (2.4::rat) \<le> 100
   \<and> \<bar>100::int\<bar> < 10 ^ 23 \<and> \<bar>7::int\<bar> < 10 ^ 23
   \<and> apply_me_to_requirements [(34, 100), (35, 7)] 2.4 = [(34, 98), (35, 7)]"
  using C6_ceiling_efficiency [of "2.4" 2400 "[(34, 100), (35, 7)]"]
  by simp

lemma me_eff_third:
  "me_eff (3333333333333333333333333333 / 10 ^ 26) = 6666666666666666666666666667 / 10 ^ 28"
proof -
  have a: "100 - 3333333333333333333333333333 / 10 ^ 26
             = of_int 6666666666666666666666666667 * (10::rat) powi (- 26)"
    by (simp add: power_int_minus field_simps)
  have s: "dsub 100 (3333333333333333333333333333 / 10 ^ 26)
             = of_int 6666666666666666666666666667 * (10::rat) powi (- 26)"
    unfolding dsub_def a by (rule dec_round_exact) simp
  have b: "of_int 6666666666666666666666666667 * (10::rat) powi (- 26) / 100
             = of_int 6666666666666666666666666667 * 10 powi (- 28)"
    by (simp add: power_int_minus field_simps)
  have d: "ddiv (of_int 6666666666666666666666666667 * (10::rat) powi (- 26)) 100
             = of_int 6666666666666666666666666667 * 10 powi (- 28)"
    unfolding ddiv_def b by (rule dec_round_exact) simp
  show ?thesis
    unfolding me_eff_def s d by (simp add: power_int_minus)
qed

lemma dmul_third: "dmul 3 (6666666666666666666666666667 / 10 ^ 28) = 2"
proof -
  let ?x = "3 * (6666666666666666666666666667 / 10 ^ 28) :: rat"
  have "dec_round ?x = of_int (round_half_even (?x / 10 powi (- 27))) * 10 powi (- 27)"
    by (rule dec_round_at) (simp_all add: power_int_minus)
  also have "?x / 10 powi (- 27) = 20000000000000000000000000001 / 10"
    by (simp add: power_int_minus)
  also have "round_half_even (20000000000000000000000000001 / 10) = 2000000000000000000000000000"
    by (simp add: round_half_even_def Let_def)
  finally show ?thesis by (simp add: dmul_def power_int_minus)
qed

lemma dmul_big: "dmul 10000000000000000000000000001 (me_eff 0) = 10000000000000000000000000000"
proof -
  have e: "me_eff 0 = 1"
    using dec_round_exact[of 100 0] dec_round_exact[of 1 0] by (simp add: me_eff_def dsub_def ddiv_def)
  have "dec_round 10000000000000000000000000001
          = of_int (round_half_even (10000000000000000000000000001 / 10 powi 1)) * 10 powi 1"
    by (rule dec_round_at) simp_all
  also have "round_half_even (10000000000000000000000000001 / 10 powi 1) = 1000000000000000000000000000"
    by (simp add: round_half_even_def Let_def)
  finally show ?thesis by (simp add: dmul_def e)
qed

text \<open>
  Claim C6 as stated fails where a decimal operation rounds.  At the bonus
  \<open>33.33333333333333333333333333\<close> a base quantity of 3 needs
  \<open>ceil(2.0000000000000000000000000001) = 3\<close> units, and the code, whose product rounds
  to 28 digits, gives 2.  At bonus 0 the base quantity \<open>10 ^ 28 + 1\<close> becomes
  \<open>10 ^ 28\<close>.
\<close>

theorem C6_ceiling_efficiency_counterexample:
  "apply_me_to_requirements [(34, 3)] (3333333333333333333333333333 / 10 ^ 26) = [(34, 2)]
   \<and> \<lceil>of_int 3 * (100 - 3333333333333333333333333333 / 10 ^ 26) / (100::rat)\<rceil> = 3
   \<and> apply_me_to_requirements [(34, 10000000000000000000000000001)] 0
         = [(34, 10000000000000000000000000000)]
   \<and> \<lceil>of_int 10000000000000000000000000001 * (100 - 0) / (100::rat)\<rceil>
         = 10000000000000000000000000001"
proof -
  define m :: rat where "m = 3333333333333333333333333333 / 10 ^ 26"
  define f :: rat where "f = 6666666666666666666666666667 / 10 ^ 28"
  have e: "me_eff m = f" unfolding m_def f_def by (rule me_eff_third)
  have d: "dmul 3 f = 2" unfolding f_def by (rule dmul_third)
  have a: "apply_me_to_requirements [(34, 3)] m = [(34, 2)]"
    by (simp add: apply_me_to_requirements_def e d)
  have b: "apply_me_to_requirements [(34, 10000000000000000000000000001)] 0
             = [(34, 10000000000000000000000000000)]"
    unfolding apply_me_to_requirements_def Let_def using dmul_big by simp
  have c: "\<lceil>of_int 3 * (100 - m) / (100::rat)\<rceil> = 3"
    unfolding m_def by simp
  show ?thesis
    using a b c unfolding m_def by simp
qed

section \<open>Unrefined refine rate: proofs\<close>

lemma smp_rate_pct_exact:
  assumes "\<bar>l\<bar> < 10 ^ 20"
  shows "smp_rate_pct l = Some (min (50 + of_int l) 55)"
proof -
  have b1: "\<bar>2 * l\<bar> < 10 ^ 28" and b2: "\<bar>100 + 2 * l\<bar> < 10 ^ 28"
    and b3: "\<bar>5000 + 100 * l\<bar> < 10 ^ 28"
    using assms by (simp_all add: abs_less_iff)
  have e1: "of_int l * (2 / 100 :: rat) = of_int (2 * l) * 10 powi (- 2)"
    by (simp add: power_int_minus field_simps)
  have s1: "dmul (of_int l) (2 / 100) = of_int (2 * l) * 10 powi (- 2)"
    unfolding dmul_def e1 by (rule dec_round_exact[OF b1])
  have e2: "1 + of_int (2 * l) * (10::rat) powi (- 2) = of_int (100 + 2 * l) * 10 powi (- 2)"
    by (simp add: power_int_minus field_simps)
  have s2: "dadd 1 (of_int (2 * l) * 10 powi (- 2)) = of_int (100 + 2 * l) * 10 powi (- 2)"
    unfolding dadd_def e2 by (rule dec_round_exact[OF b2])
  have e3: "50 * (of_int (100 + 2 * l) * (10::rat) powi (- 2)) = of_int (5000 + 100 * l) * 10 powi (- 2)"
    by (simp add: power_int_minus field_simps)
  have s3: "dmul 50 (of_int (100 + 2 * l) * 10 powi (- 2)) = of_int (5000 + 100 * l) * 10 powi (- 2)"
    unfolding dmul_def e3 by (rule dec_round_exact[OF b3])
  have q: "quantize (of_int (5000 + 100 * l) * 10 powi (- 2)) (- 2) =
             Some (of_int (5000 + 100 * l) * 10 powi (- 2))"
    unfolding quantize_def Let_def using b3
    by (simp add: round_half_even_of_int del: of_int_add of_int_mult)
  have v: "of_int (5000 + 100 * l) * (10::rat) powi (- 2) = 50 + of_int l"
    by (simp add: power_int_minus field_simps)
  have "smp_rate_pct l =
          Some (if of_int (5000 + 100 * l) * (10::rat) powi (- 2) > 55 then 55
                else of_int (5000 + 100 * l) * 10 powi (- 2))"
    unfolding smp_rate_pct_def s1 s2 s3 q by (simp only: option.case)
  then show ?thesis
    unfolding v by (simp add: min_def)
qed

lemma ddiv_100_exact:
  assumes "\<bar>c\<bar> < 10 ^ 28"
  shows "ddiv (of_int c) 100 = of_int c / 100"
proof -
  have e: "of_int c / (100::rat) = of_int c * 10 powi (- 2)"
    by (simp add: power_int_minus field_simps)
  show ?thesis unfolding ddiv_def e by (rule dec_round_exact[OF assms])
qed

text \<open>
  Claim C10.  For every scrap-metal-processing level (the form admits 0 to 5; the proof
  covers every level below \<open>10 ^ 20\<close> in absolute value) the request computes the
  unrefined refine rate \<open>min(50 * (1 + 0.02 * level), 55) / 100\<close>, without raising and
  without rounding, and the rate never exceeds \<open>0.55\<close>.
\<close>

theorem C10_unrefined_rate:
  assumes "\<bar>smp_level\<bar> < 10 ^ 20"
  shows "unrefined_refine_rate smp_level =
           Some (min (50 * (1 + 2 / 100 * of_int smp_level)) 55 / 100)
         \<and> min (50 * (1 + 2 / 100 * of_int smp_level)) 55 / 100 \<le> (55 / 100 :: rat)"
proof -
  have m: "min (50 + of_int smp_level) (55::rat) = of_int (min (50 + smp_level) 55)"
    by (simp add: min_def)
  have b: "\<bar>min (50 + smp_level) 55\<bar> < 10 ^ 28"
    using assms by (simp add: min_def abs_less_iff)
  have v: "50 * (1 + 2 / 100 * of_int smp_level) = (50 + of_int smp_level :: rat)"
    by (simp add: field_simps)
  have "unrefined_refine_rate smp_level = Some (ddiv (of_int (min (50 + smp_level) 55)) 100)"
    unfolding unrefined_refine_rate_def smp_rate_pct_exact[OF assms] m by simp
  then have "unrefined_refine_rate smp_level = Some (min (50 + of_int smp_level) 55 / 100)"
    unfolding ddiv_100_exact[OF b] m .
  then show ?thesis unfolding v by simp
qed

text \<open>Level 5 gives the cap \<open>0.55\<close>, level 2 gives \<open>0.52\<close>.\<close>

theorem C10_unrefined_rate_witness:
  "\<bar>5::int\<bar> < 10 ^ 20 \<and> unrefined_refine_rate 5 = Some (55 / 100)
   \<and> \<bar>2::int\<bar> < 10 ^ 20 \<and> unrefined_refine_rate 2 = Some (52 / 100)"
  using C10_unrefined_rate [of 5] C10_unrefined_rate [of 2] by simp


section \<open>Categorization and initial stock: proofs\<close>








section \<open>Refining: proofs\<close>

lemma to_integral_down_nonneg: "0 \<le> x \<Longrightarrow> to_integral_down x = \<lfloor>x\<rfloor>"
  by (simp add: to_integral_down_def)

lemma produced_units_exact:
  assumes "0 < s" "0 \<le> pp" "0 \<le> q" "0 \<le> rate"
    and "representable (of_int q / of_int s)"
    and "representable (of_int pp * (of_int q / of_int s))"
    and "representable (of_int pp * (of_int q / of_int s) * rate)"
  shows "produced_units pp (portions_of q s) rate = spec_yield pp q s rate"
proof -
  have p: "portions_of q s = of_int q / of_int s"
    using assms(1) by (simp add: portions_of_def ddiv_def representable_exact[OF assms(5)])
  have nn: "0 \<le> of_int pp * (of_int q / of_int s) * rate"
    using assms(1-4) by simp
  show ?thesis
    unfolding produced_units_def p dmul_def representable_exact[OF assms(6)]
      representable_exact[OF assms(7)] spec_yield_def
    using nn by (rule to_integral_down_nonneg)
qed

lemma refine_rows_credit:
  "refine_rows portions rate rows refined mt =
     (let ps = positive_of (map (\<lambda>(m, pp). (m, produced_units pp portions rate)) rows) mt
      in if ps = [] then refined mt else Some (dget refined mt + sum_list ps))"
proof (induction rows arbitrary: refined)
  case Nil
  show ?case by (simp add: positive_of_def)
next
  case (Cons r rows)
  obtain m pp where r: "r = (m, pp)" by (cases r)
  show ?case
    unfolding r by (auto simp: Cons.IH positive_of_def Let_def dict_inc_def dget_def)
qed

lemma positive_of_append: "positive_of (xs @ ys) mt = positive_of xs mt @ positive_of ys mt"
  by (simp add: positive_of_def)

lemma refine_loop_credit:
  "refine_loop M rr ur ps refined mt =
     (let vs = positive_of (concat (map (item_yields M rr ur) ps)) mt
      in if vs = [] then refined mt else Some (dget refined mt + sum_list vs))"
proof (induction ps arbitrary: refined)
  case Nil
  show ?case by (simp add: positive_of_def)
next
  case (Cons p ps)
  show ?case
    by (auto simp: Cons.IH refine_rows_credit positive_of_append Let_def item_yields_def dget_def)
qed

lemma refine_from_inputs_credited:
  "refine_from_inputs M items rr ur = credited (all_yields M rr ur items)"
  by (rule ext) (simp add: refine_from_inputs_def refine_loop_credit credited_def all_yields_def
      Let_def dget_def)

lemma item_rate_unrefined:
  "item_rate rr (Some ur) nm = (if startswith (lower nm) ''unrefined '' then ur else rr)"
  by (cases nm) (simp_all add: item_rate_def is_unrefined_name_def lower_def)

lemma representable_int: "\<bar>c\<bar> < 10 ^ 28 \<Longrightarrow> representable (of_int c)"
  unfolding representable_def by (rule exI[of _ c], rule exI[of _ 0]) simp

lemma ddiv_1_3: "ddiv 1 3 = 3333333333333333333333333333 * 10 powi (- 28)"
proof -
  have "dec_round (1 / 3) = of_int (round_half_even ((1 / 3) / 10 powi (- 28))) * 10 powi (- 28)"
    by (rule dec_round_at) (simp_all add: power_int_minus)
  also have "(1 / 3) / (10::rat) powi (- 28) = 10000000000000000000000000000 / 3"
    by (simp add: power_int_minus)
  also have "round_half_even (10000000000000000000000000000 / 3) = 3333333333333333333333333333"
    by (simp add: round_half_even_def Let_def)
  finally show ?thesis by (simp add: ddiv_def)
qed

lemma under_yield: "produced_units 3 (portions_of 1 3) 1 = 0"
proof -
  have a: "dmul 3 (3333333333333333333333333333 * 10 powi (- 28))
             = of_int 9999999999999999999999999999 * 10 powi (- 28)"
    unfolding dmul_def
    using dec_round_exact[of 9999999999999999999999999999 "- 28"] by simp
  have b: "dmul (of_int 9999999999999999999999999999 * 10 powi (- 28)) 1
             = of_int 9999999999999999999999999999 * 10 powi (- 28)"
    unfolding dmul_def
    using dec_round_exact[of 9999999999999999999999999999 "- 28"] by simp
  have p: "portions_of 1 3 = ddiv 1 3" by (simp add: portions_of_def)
  have "produced_units 3 (portions_of 1 3) 1 = to_integral_down (dmul (dmul 3 (ddiv 1 3)) 1)"
    unfolding produced_units_def p by simp
  also have "\<dots> = to_integral_down (of_int 9999999999999999999999999999 * 10 powi (- 28))"
    by (simp only: ddiv_1_3 a b)
  also have "\<dots> = 0"
    by (simp add: to_integral_down_def power_int_minus)
  finally show ?thesis .
qed

lemma over_yield: "produced_units 1 (portions_of 29999999999999999999999999999 3) 1
                     = 10000000000000000000000000000"
proof -
  have "dec_round (29999999999999999999999999999 / 3)
          = of_int (round_half_even ((29999999999999999999999999999 / 3) / 10 powi 0)) * 10 powi 0"
    by (rule dec_round_at) simp_all
  also have "round_half_even ((29999999999999999999999999999 / 3) / 10 powi 0)
               = 10000000000000000000000000000"
    by (simp add: round_half_even_def Let_def)
  finally have d: "ddiv 29999999999999999999999999999 3 = 10000000000000000000000000000"
    by (simp add: ddiv_def)
  have e: "dec_round 10000000000000000000000000000 = 10000000000000000000000000000"
    using dec_round_exact[of 1 28] by simp
  have p: "portions_of 29999999999999999999999999999 3 = ddiv 29999999999999999999999999999 3"
    by (simp add: portions_of_def)
  have "produced_units 1 (portions_of 29999999999999999999999999999 3) 1
          = to_integral_down (dmul (dmul 1 (ddiv 29999999999999999999999999999 3)) 1)"
    unfolding produced_units_def p by simp
  also have "\<dots> = to_integral_down 10000000000000000000000000000"
    unfolding d dmul_def by (simp only: mult_1 mult_1_right e)
  also have "\<dots> = 10000000000000000000000000000"
    by (simp add: to_integral_down_def)
  finally show ?thesis .
qed

lemma spec_vals: "spec_yield 3 1 3 1 = 1"
  "spec_yield 1 29999999999999999999999999999 3 1 = 9999999999999999999999999999"
  by (simp_all add: spec_yield_def)

text \<open>
  Claim C5 (as amended).  The unrefined rate, when one is supplied, is used exactly for the
  items whose name begins with \<open>"unrefined "\<close> case-insensitively.  The result of
  \<open>refine_from_inputs\<close> credits, per material, the sum of the positive yields of the
  refine-category items and omits yields \<open>\<le> 0\<close>; each yield is the truncation of
  \<open>per_portion * (q / s) * rate\<close> computed in 28-digit decimal arithmetic.  Whenever the
  quotient \<open>q / s\<close> and the two products are representable in 28 significant digits,
  the yield equals \<open>floor(per_portion * (q / s) * rate)\<close> of the real-valued formula.
\<close>

theorem C5_refine_yield:
  "item_rate rr (Some ur) nm = (if startswith (lower nm) ''unrefined '' then ur else rr)
   \<and> refine_from_inputs M items rr ur' = credited (all_yields M rr ur' items)
   \<and> (0 < s \<and> 0 \<le> pp \<and> 0 \<le> q \<and> 0 \<le> rate
        \<and> representable (of_int q / of_int s)
        \<and> representable (of_int pp * (of_int q / of_int s))
        \<and> representable (of_int pp * (of_int q / of_int s) * rate)
        \<longrightarrow> produced_units pp (portions_of q s) rate = spec_yield pp q s rate)"
  using item_rate_unrefined refine_from_inputs_credited produced_units_exact by blast

text \<open>
  1000 units of an unrefined ore of portion size 100 with 40 units per portion, at the
  unrefined rate 0.55, yield 220.
\<close>

theorem C5_refine_yield_witness:
  "item_rate (8 / 10) (Some (55 / 100)) ''Unrefined Ore'' = 55 / 100
   \<and> (0::int) < 100 \<and> (0::int) \<le> 40 \<and> (0::int) \<le> 1000 \<and> (0::rat) \<le> 55 / 100
   \<and> representable (of_int 1000 / of_int 100)
   \<and> representable (of_int 40 * (of_int 1000 / of_int 100))
   \<and> representable (of_int 40 * (of_int 1000 / of_int 100) * (55 / 100))
   \<and> produced_units 40 (portions_of 1000 100) (55 / 100) = 220"
proof -
  have r1: "representable (of_int 1000 / of_int 100)"
    using representable_int[of 10] by simp
  have r2: "representable (of_int 40 * (of_int 1000 / of_int 100))"
    using representable_int[of 400] by simp
  have r3: "representable (of_int 40 * (of_int 1000 / of_int 100) * (55 / 100))"
    using representable_int[of 220] by simp
  have l: "lower ''Unrefined Ore'' = ''unrefined ore''"
    by code_simp
  show ?thesis
    using r1 r2 r3 l
      C5_refine_yield [where rr = "8 / 10" and ur = "55 / 100" and nm = "''Unrefined Ore''"
        and s = 100 and pp = 40 and q = 1000 and rate = "55 / 100"]
    by (simp add: spec_yield_def)
qed

text \<open>
  Claim C5 as stated fails where the decimal quotient rounds.  One unit of an ore of
  portion size 3 with 3 units per portion at rate 1: the formula gives
  \<open>floor(3 * (1 / 3) * 1) = 1\<close>, the code computes \<open>3 * 0.3333333333333333333333333333\<close>
  and yields nothing.  And \<open>3 * 10 ^ 28 - 1\<close> units at one unit per portion yield
  \<open>10 ^ 28\<close>, one more than the floor of the formula.
\<close>

theorem C5_refine_yield_counterexample:
  "refine_from_inputs ore3_mats [\<lparr>evetype = ore3, quantity = 1, category = Refine\<rparr>] 1 None 34 = None
   \<and> spec_yield 3 1 3 1 = 1
   \<and> produced_units 1 (portions_of 29999999999999999999999999999 3) 1
         = 10000000000000000000000000000
   \<and> spec_yield 1 29999999999999999999999999999 3 1 = 9999999999999999999999999999"
  using under_yield over_yield spec_vals
  by (simp add: refine_from_inputs_credited credited_def all_yields_def item_yields_def
      positive_of_def item_rate_def ore3_def ore3_mats_def)

section \<open>The ledger invariant: proofs\<close>

lemma stock_nonneg_upd: "stock_nonneg s \<Longrightarrow> 0 \<le> v \<Longrightarrow> stock_nonneg (s(k \<mapsto> v))"
  by (simp add: stock_nonneg_def)

lemma dget_nonneg: "stock_nonneg s \<Longrightarrow> 0 \<le> dget s k"
  by (auto simp: stock_nonneg_def dget_def split: option.splits)

lemma deduct_loop_nonneg: "stock_nonneg cur \<Longrightarrow> stock_nonneg (deduct_loop used cur)"
  by (induction used cur rule: deduct_loop.induct) (simp_all add: stock_nonneg_upd)

lemma credit_loop_nonneg:
  "stock_nonneg cur \<Longrightarrow> \<forall>(k, v) \<in> set xs. 0 \<le> v \<Longrightarrow> stock_nonneg (credit_loop xs cur)"
  by (induction xs cur rule: credit_loop.induct) (simp_all add: stock_nonneg_upd dget_nonneg)

lemma od_inc_pos:
  "\<forall>(k, v) \<in> set d. 0 < v \<Longrightarrow> 0 < v' \<Longrightarrow> \<forall>(k, v) \<in> set (od_inc d k' v'). 0 < v"
  by (induction d k' v' rule: od_inc.induct) auto

lemma credit_rows_pos:
  "\<forall>(k, v) \<in> set add. 0 < v \<Longrightarrow> \<forall>(k, v) \<in> set (credit_rows portions rate rows add). 0 < v"
proof (induction portions rate rows add rule: credit_rows.induct)
  case (1 portions rate add)
  then show ?case by simp
next
  case (2 portions rate mtid per_portion rows add)
  show ?case
  proof (cases "0 < produced_units per_portion portions rate")
    case True
    then have "\<forall>(k, v) \<in> set (od_inc add mtid (produced_units per_portion portions rate)). 0 < v"
      using "2.prems" by (intro od_inc_pos)
    then show ?thesis using True "2.IH"(1) by simp
  next
    case False
    then show ?thesis using "2.IH"(2) "2.prems" by simp
  qed
qed

lemma reprocess_loop_pos:
  "\<forall>(k, v) \<in> set add. 0 < v \<Longrightarrow>
   \<forall>(k, v) \<in> set (fst (reprocess_loop M T rate produced ids (add, used))). 0 < v"
proof (induction ids arbitrary: add used)
  case Nil
  then show ?case by simp
next
  case (Cons utid ids)
  show ?case
    using Cons.prems by (auto simp: Let_def intro!: Cons.IH credit_rows_pos)
qed

lemma reprocess_add_pos:
  "\<forall>(k, v) \<in> set (fst (reprocess_unrefined_in_stock M T produced rate)). 0 < v"
  unfolding reprocess_unrefined_in_stock_def Let_def
  using reprocess_loop_pos[of "[]" M T rate produced _ "[]"] by simp

lemma step_ledger_nonneg:
  assumes "stock_nonneg cur"
  shows "stock_nonneg (step_ledger cur (reprocess_unrefined_in_stock M T produced rate))"
proof -
  obtain a u where au: "reprocess_unrefined_in_stock M T produced rate = (a, u)"
    by (cases "reprocess_unrefined_in_stock M T produced rate")
  have "\<forall>(k, v) \<in> set a. 0 < v" using reprocess_add_pos[of M T produced rate] au by simp
  then have "\<forall>(k, v) \<in> set a. 0 \<le> v" by auto
  then show ?thesis
    unfolding au step_ledger_def using assms
    by (simp add: credit_loop_nonneg deduct_loop_nonneg)
qed

lemma feeder_ledger_nonneg:
  "stock_nonneg cur \<Longrightarrow> stock_nonneg (feeder_ledger cur produced au)"
  by (cases au) (simp add: feeder_ledger_def deduct_loop_nonneg)

lemma req_row_stock:
  assumes "req_row e n d tid need et a = Inr a'" "stock_nonneg (acc_stock a)"
  shows "stock_nonneg (acc_stock a')"
  using assms unfolding req_row_def Let_def
  by (auto split: if_splits option.splits intro!: stock_nonneg_upd)

lemma req_loop_stock:
  "req_loop e n d reqs a = Inr a' \<Longrightarrow> stock_nonneg (acc_stock a) \<Longrightarrow> stock_nonneg (acc_stock a')"
proof (induction e n d reqs a rule: req_loop.induct)
  case (1 e n d a)
  then show ?case by simp
next
  case (2 e n d tid need reqs a)
  show ?case
  proof (cases "type_map e tid")
    case None
    then show ?thesis using 2 by simp
  next
    case (Some et)
    show ?thesis
    proof (cases "req_row e n d tid need et a")
      case (Inl err)
      then show ?thesis using "2.prems" Some by simp
    next
      case (Inr a1)
      then have "stock_nonneg (acc_stock a1)" using "2.prems"(2) by (rule req_row_stock)
      then show ?thesis using "2.IH"(2)[OF Some Inr] "2.prems"(1) Some Inr by simp
    qed
  qed
qed

lemma prod_loop_stock:
  "stock_nonneg (pacc_stock a) \<Longrightarrow> 0 \<le> n \<Longrightarrow> \<forall>(t, q) \<in> set prods. 0 \<le> q \<Longrightarrow>
   stock_nonneg (pacc_stock (prod_loop e n d prods a))"
proof (induction e n d prods a rule: prod_loop.induct)
  case (1 e n d a)
  then show ?case by simp
next
  case (2 e n d tid out_per_run prods a)
  show ?case
  proof (cases "type_map e tid")
    case None
    then show ?thesis using 2 by simp
  next
    case (Some etp)
    have "0 \<le> out_per_run * n" using "2.prems" by simp
    then have "stock_nonneg (dict_inc (pacc_stock a) tid (out_per_run * n))"
      using "2.prems"(1) by (simp add: dict_inc_def stock_nonneg_upd dget_nonneg)
    then show ?thesis using "2.IH"(2)[OF refl refl Some refl] "2.prems" Some
      by (simp add: Let_def)
  qed
qed

lemma build_step_stock:
  assumes "build_step e pl n stock cum supply = Inr (st, stock', cum')"
    and "stock_nonneg stock" and "0 \<le> n" and "\<forall>(t, q) \<in> set (per_run_products pl). 0 \<le> q"
  shows "stock_nonneg stock'"
proof -
  let ?d = "display_loop (type_map e) stock supply (per_run_requirements pl) 0"
  let ?a0 = "\<lparr>acc_supply = supply, acc_stock = stock, acc_inputs = [],
                 consumed_cost_raw = 0, have_val_sum = 0, need_val_sum = 0, m3_total_sum = 0,
                 m3_need_sum = 0, stock_val_sum = 0\<rparr>"
  from assms(1) obtain a where a: "req_loop e n ?d (per_run_requirements pl) ?a0 = Inr a"
    unfolding build_step_def Let_def by (auto split: sum.splits)
  have sa: "stock_nonneg (acc_stock a)" using req_loop_stock[OF a] assms(2) by simp
  let ?p0 = "\<lparr>pacc_stock = acc_stock a, produced_qty_display = 0,
                        produced_value_display = 0, produced_volume_display = 0,
                        pacc_name = []\<rparr>"
  have "stock' = pacc_stock (prod_loop e n ?d (per_run_products pl) ?p0)"
    using assms(1) a unfolding build_step_def Let_def by simp
  then show ?thesis using prod_loop_stock[of ?p0 n "per_run_products pl" e ?d] sa assms(3,4) by simp
qed


lemma credited_pos: "credited ys mt = Some v \<Longrightarrow> 0 < v"
proof -
  assume a: "credited ys mt = Some v"
  have pos: "\<forall>x \<in> set (positive_of ys mt). 0 < x" by (auto simp: positive_of_def)
  have "xs \<noteq> [] \<Longrightarrow> \<forall>x \<in> set xs. 0 < x \<Longrightarrow> 0 < sum_list xs" for xs :: "int list"
    by (induction xs) (auto intro: add_pos_nonneg sum_list_nonneg less_imp_le)
  with a pos show ?thesis by (auto simp: credited_def split: if_splits)
qed

lemma refine_from_inputs_nonneg: "stock_nonneg (refine_from_inputs M items rr ur)"
  unfolding stock_nonneg_def refine_from_inputs_credited
  using credited_pos by (auto intro: less_imp_le)

lemma stock_loop_nonneg:
  "stock_nonneg stock \<Longrightarrow> \<forall>p \<in> set items. 0 \<le> quantity p \<Longrightarrow> stock_nonneg (stock_loop items stock)"
proof (induction items stock rule: stock_loop.induct)
  case (1 stock)
  then show ?case by simp
next
  case (2 p items stock)
  have "stock_nonneg (dict_inc stock (type_id (evetype p)) (quantity p))"
    using "2.prems" by (simp add: dict_inc_def stock_nonneg_upd dget_nonneg)
  then show ?case using 2 by simp
qed

lemma categorize_items_quantity:
  "\<forall>p \<in> set items. 0 \<le> quantity p \<Longrightarrow> \<forall>p \<in> set (categorize_items R M items). 0 \<le> quantity p"
  by (induction items) auto

lemma extras_loop_nonneg:
  "stock_nonneg stock \<Longrightarrow> stock_nonneg (fst (extras_loop al resolved (stock, ex)))"
proof (induction resolved arbitrary: stock ex)
  case Nil
  then show ?case by simp
next
  case (Cons pl resolved)
  have "stock_nonneg (dict_inc stock (type_id (evetype pl)) (quantity pl))" if "0 < quantity pl"
    using that Cons.prems by (simp add: dict_inc_def stock_nonneg_upd dget_nonneg)
  then show ?case using Cons by auto
qed

lemma request_stock_nonneg:
  assumes "\<forall>p \<in> set resolved. 0 \<le> quantity p"
  shows "stock_nonneg (fst (request_stock R M resolved rr ur))"
  unfolding request_stock_def Let_def build_initial_stock_def
  by (intro extras_loop_nonneg stock_loop_nonneg refine_from_inputs_nonneg
      categorize_items_quantity assms)


text \<open>
  Claim C8.  The ledger of a request starts non-negative (the parsed quantities are), and
  every operation that mutates a chain's ledger keeps it so: a reaction step
  (\<open>build_step\<close>, run with a non-negative run count on a recipe with non-negative
  product quantities, as every call site does), the clamped deduction after a feeder
  step, and the clamped deduction and credit of refined materials after a chain step.
\<close>

theorem C8_ledger_nonneg:
  "((\<forall>p \<in> set resolved. 0 \<le> quantity p)
      \<longrightarrow> stock_nonneg (fst (request_stock R M resolved rr ur)))
   \<and> (stock_nonneg stock \<and> 0 \<le> n \<and> (\<forall>(t, q) \<in> set (per_run_products pl). 0 \<le> q)
      \<longrightarrow> (case build_step e pl n stock cum supply of
             Inl err \<Rightarrow> True
           | Inr (st, stock', cum') \<Rightarrow> stock_nonneg stock'))
   \<and> (stock_nonneg stock
      \<longrightarrow> stock_nonneg (feeder_ledger stock (produced_map pl n)
             (reprocess_unrefined_in_stock M T (produced_map pl n) rate)))
   \<and> (stock_nonneg stock
      \<longrightarrow> stock_nonneg (step_ledger stock
             (reprocess_unrefined_in_stock M T (produced_map pl n) rate)))"
proof -
  have "case build_step e pl n stock cum supply of
          Inl err \<Rightarrow> True | Inr (st, stock', cum') \<Rightarrow> stock_nonneg stock'"
    if "stock_nonneg stock" "0 \<le> n" "\<forall>(t, q) \<in> set (per_run_products pl). 0 \<le> q"
    using build_step_stock[OF _ that] by (auto split: sum.splits)
  then show ?thesis
    using request_stock_nonneg feeder_ledger_nonneg step_ledger_nonneg by blast
qed

text \<open>
  The specification's scenario: ten runs of \<open>R1\<close> on the ledger \<open>{A: 100}\<close> leave
  \<open>{A: 0, B: 50}\<close>.
\<close>

theorem C8_ledger_nonneg_witness:
  "(0::int) \<le> quantity \<lparr>evetype = widget, quantity = 5\<rparr>
   \<and> stock_nonneg (fst (request_stock {} no_mats [\<lparr>evetype = widget, quantity = 5\<rparr>] (8 / 10) None))
   \<and> stock_nonneg [1 \<mapsto> 100] \<and> (0::int) \<le> 10 \<and> (0::int) \<le> 5
   \<and> (case build_step ex_env ex_plan 10 [1 \<mapsto> 100] 0 Map.empty of
          Inl err \<Rightarrow> False
        | Inr (st, stock', cum') \<Rightarrow> stock' = [1 \<mapsto> 0, 2 \<mapsto> 50] \<and> stock_nonneg stock')
   \<and> stock_nonneg (feeder_ledger [1 \<mapsto> 100] (produced_map ex_plan 10)
         (reprocess_unrefined_in_stock no_mats ex_types (produced_map ex_plan 10) (55 / 100)))
   \<and> stock_nonneg (step_ledger [1 \<mapsto> 100]
         (reprocess_unrefined_in_stock no_mats ex_types (produced_map ex_plan 10) (55 / 100)))"
proof -
  have s: "stock_nonneg [1 \<mapsto> 100]" by (simp add: stock_nonneg_def)
  have "build_step ex_env ex_plan 10 [1 \<mapsto> 100] 0 Map.empty
          = Inr (fst (projr (build_step ex_env ex_plan 10 [1 \<mapsto> 100] 0 Map.empty)),
                 [1 \<mapsto> 0, 2 \<mapsto> 50],
                 snd (snd (projr (build_step ex_env ex_plan 10 [1 \<mapsto> 100] 0 Map.empty))))"
    by (simp add: build_step_def req_row_def ex_env_def ex_plan_def ex_types_def ex_price_def
        is_fuel_id_def dget_def dict_inc_def Let_def fun_upd_twist)
  then obtain st c where b: "build_step ex_env ex_plan 10 [1 \<mapsto> 100] 0 Map.empty
                               = Inr (st, [1 \<mapsto> 0, 2 \<mapsto> 50], c)"
    by blast
  have h: "\<forall>(t, q) \<in> set (per_run_products ex_plan). 0 \<le> q" by (simp add: ex_plan_def)
  show ?thesis
    using s h
      C8_ledger_nonneg [where resolved = "[\<lparr>evetype = widget, quantity = 5\<rparr>]" and R = "{}"
        and M = no_mats and rr = "8 / 10" and ur = None and stock = "[1 \<mapsto> 100]" and n = 10
        and pl = ex_plan and e = ex_env and cum = 0 and ?supply = Map.empty and T = ex_types
        and rate = "55 / 100"]
    unfolding b by simp
qed

section \<open>Profit accounting: proofs\<close>

lemma build_step_profit:
  assumes "build_step e pl n stock c ss = Inr (st, stock', c')"
  shows "\<exists>p. step_profit st = Some p \<and> c' = dadd c p \<and> cumulative_profit st = c'"
  using assms unfolding build_step_def Let_def by (auto split: sum.splits)

lemma reprocess_step_profit:
  "step_profit (build_reprocess_step e u a) = None"
  by (simp add: build_reprocess_step_def Let_def split: prod.splits)

lemma step_profits_Cons:
  "step_profits (st # xs) = (case step_profit st of None \<Rightarrow> [] | Some p \<Rightarrow> [p]) @ step_profits xs"
  by (simp add: step_profits_def)

lemma profit_thread_fold:
  "profit_thread e c steps c' \<Longrightarrow>
     c' = foldl dadd c (step_profits steps)
     \<and> (\<forall>i < length steps. cumulative_profit (steps ! i) = foldl dadd c (step_profits (take (Suc i) steps)))"
proof (induction rule: profit_thread.induct)
  case (thread_done e c)
  show ?case by (simp add: step_profits_def)
next
  case (thread_reaction e pl n stock c ss st stock' c' steps c'')
  from build_step_profit[OF thread_reaction.hyps(1)] obtain p where
    p: "step_profit st = Some p" "c' = dadd c p" "cumulative_profit st = c'" by blast
  have sp: "step_profits (st # xs) = p # step_profits xs" for xs
    using p(1) by (simp add: step_profits_Cons)
  show ?case
  proof (intro conjI allI impI)
    show "c'' = foldl dadd c (step_profits (st # steps))"
      using thread_reaction.IH p(2) by (simp add: sp)
    fix i assume i: "i < length (st # steps)"
    show "cumulative_profit ((st # steps) ! i) = foldl dadd c (step_profits (take (Suc i) (st # steps)))"
    proof (cases i)
      case 0
      then show ?thesis using p by (simp add: sp) (simp add: step_profits_def)
    next
      case (Suc j)
      then show ?thesis using i thread_reaction.IH p(2) by (simp add: sp)
    qed
  qed
next
  case (thread_reprocess e c steps c'' u a)
  let ?r = "(build_reprocess_step e u a)\<lparr>cumulative_profit := c\<rparr>"
  have n: "step_profit ?r = None" by (simp add: reprocess_step_profit)
  have sp: "step_profits (?r # xs) = step_profits xs" for xs
    unfolding step_profits_Cons n by simp
  show ?case
  proof (intro conjI allI impI)
    show "c'' = foldl dadd c (step_profits (?r # steps))"
      using thread_reprocess.IH unfolding sp by simp
    fix i assume i: "i < length (?r # steps)"
    show "cumulative_profit ((?r # steps) ! i) = foldl dadd c (step_profits (take (Suc i) (?r # steps)))"
    proof (cases i)
      case 0
      have "take (Suc 0) (?r # steps) = [?r]" by simp
      moreover have "step_profits [?r] = []" using sp[of "[]"] by (simp add: step_profits_def)
      ultimately show ?thesis using 0 by simp
    next
      case (Suc j)
      have "take (Suc (Suc j)) (?r # steps) = ?r # take (Suc j) steps" by simp
      then have "step_profits (take (Suc (Suc j)) (?r # steps)) = step_profits (take (Suc j) steps)"
        using sp by simp
      then show ?thesis using Suc i thread_reprocess.IH by simp
    qed
  qed
qed

lemmas dec_eval = dadd_def dsub_def dmul_def ddiv_def dec_round_6places

lemma ex_A: "type_map ex_env 1 = Some \<lparr>type_id = 1, name = ''A'', portion_size = 1, volume = 1\<rparr>"
  by (simp add: ex_env_def ex_types_def)

lemma ex_B: "type_map ex_env 2 = Some \<lparr>type_id = 2, name = ''B'', portion_size = 1, volume = 1\<rparr>"
  by (simp add: ex_env_def ex_types_def)

lemma ex_notfuel: "contains_str (lower ''A'') ''fuel block'' = False"
  by code_simp

lemma ex_fuel: "\<not> is_fuel_id (type_map ex_env) 1"
  by (simp add: is_fuel_id_def ex_A ex_notfuel)

lemma ex_display: "display_loop (type_map ex_env) [1 \<mapsto> 100] Map.empty [(1, 10)] 0 = 10"
  by (simp add: ex_fuel dget_def)

lemma ex_fee: "dadd 1 (ddiv 10 100) = 11 / 10"
  by (simp add: dec_eval)

lemma ex_row:
  "req_row ex_env 10 10 1 10 \<lparr>type_id = 1, name = ''A'', portion_size = 1, volume = 1\<rparr>
     \<lparr>acc_supply = Map.empty, acc_stock = [1 \<mapsto> 100], acc_inputs = [],
      consumed_cost_raw = 0, have_val_sum = 0, need_val_sum = 0, m3_total_sum = 0,
      m3_need_sum = 0, stock_val_sum = 0\<rparr>
   = Inr \<lparr>acc_supply = Map.empty, acc_stock = [1 \<mapsto> 0],
          acc_inputs = [\<lparr>row_type = 1, need_per_run = 10, have_used = 100, total_need = 100,
                       need_missing = 0, from_children = 0, from_stock = 100\<rparr>],
          consumed_cost_raw = 100, have_val_sum = 100, need_val_sum = 0, m3_total_sum = 100,
          m3_need_sum = 0, stock_val_sum = 100\<rparr>"
  unfolding req_row_def Let_def
  by (simp add: ex_fuel ex_notfuel dget_def ex_fee) (simp add: ex_env_def ex_price_def dec_eval)

lemma ex_req:
  "req_loop ex_env 10 10 [(1, 10)]
     \<lparr>acc_supply = Map.empty, acc_stock = [1 \<mapsto> 100], acc_inputs = [],
      consumed_cost_raw = 0, have_val_sum = 0, need_val_sum = 0, m3_total_sum = 0,
      m3_need_sum = 0, stock_val_sum = 0\<rparr>
   = Inr \<lparr>acc_supply = Map.empty, acc_stock = [1 \<mapsto> 0],
          acc_inputs = [\<lparr>row_type = 1, need_per_run = 10, have_used = 100, total_need = 100,
                       need_missing = 0, from_children = 0, from_stock = 100\<rparr>],
          consumed_cost_raw = 100, have_val_sum = 100, need_val_sum = 0, m3_total_sum = 100,
          m3_need_sum = 0, stock_val_sum = 100\<rparr>"
  by (simp add: ex_A ex_row)

lemma ex_prod:
  "prod_loop ex_env 10 10 [(2, 5)]
     \<lparr>pacc_stock = [1 \<mapsto> 0], produced_qty_display = 0, produced_value_display = 0,
      produced_volume_display = 0, pacc_name = []\<rparr>
   = \<lparr>pacc_stock = [1 \<mapsto> 0, 2 \<mapsto> 50], produced_qty_display = 50,
      produced_value_display = 500, produced_volume_display = 50, pacc_name = ''B''\<rparr>"
  by (simp add: ex_B dict_inc_def dget_def) (simp add: ex_env_def ex_price_def dec_eval)

lemma ex_money:
  "dmul 500 (dsub 1 (ddiv 10 100)) = 450"
  "dmul 100 (ddiv (dadd (dadd 4 0) 0) 100) = 4"
  "dsub (dsub (dsub 450 4) 0) 100 = 346"
  "dadd 0 346 = 346"
  "fmt2 4 = 4" "fmt2 0 = 0" "fmt2 500 = 500" "fmt2 50 = 50" "fmt2 100 = 100"
  by (simp_all add: dec_eval fmt2_def round_half_even_def)

lemma ex_step:
  "build_step ex_env ex_plan 10 [1 \<mapsto> 100] 0 Map.empty = Inr (ex_step1, [1 \<mapsto> 0, 2 \<mapsto> 50], 346)"
proof -
  have pl: "per_run_requirements ex_plan = [(1, 10)]" "per_run_products ex_plan = [(2, 5)]"
    "plan_name ex_plan = ''R1''" "time_per_run_seconds ex_plan = 60"
    by (simp_all add: ex_plan_def)
  have en: "output_basis_buy ex_env" "broker_fee_pct ex_env = 10" "scc_pct ex_env = 4"
    "facility_tax_pct ex_env = 0" "cost_index_pct ex_env = 0"
    by (simp_all add: ex_env_def)
  show ?thesis
    unfolding build_step_def pl ex_display Let_def ex_req
    by (simp add: ex_prod en ex_money ex_step1_def del: prod_loop.simps)
qed

lemma ex_totals:
  "spec_profit_sum [ex_step1] = 346" "final_profit [ex_step1] = 396"
  by (simp_all add: spec_profit_sum_def step_profits_def py_sum_def final_profit_def
      final_value_def last_reaction_step_def final_fees_def total_needed_cost_def
      total_stock_value_used_def ex_step1_def dec_eval)


text \<open>
  Claim C2 (as amended).  Cumulative profit accumulates additively: in every chain, threaded
  through \<open>build_step\<close> as \<open>InputView.post\<close> does from profit \<open>0\<close>, the profit
  carried out of the chain equals the sum of the step profits, and every step's
  \<open>cumulative_profit\<close> equals the sum of the step profits up to and including it (both
  sums being Python's left-to-right decimal sum).  The chain's reported \<open>final_profit\<close> is
  another quantity, computed from display values: the last reaction step's gross product
  value minus the sums of all steps' fees, missing-material costs and stock values used.
\<close>

theorem C2_profit_additivity:
  "profit_thread e 0 steps c \<longrightarrow>
     c = spec_profit_sum steps
     \<and> (\<forall>i < length steps.
           cumulative_profit (steps ! i) = spec_profit_sum (take (Suc i) steps))"
  using profit_thread_fold[of e 0 steps c] by (simp add: spec_profit_sum_def py_sum_def)

theorem C2_profit_additivity_witness:
  "profit_thread ex_env 0 [ex_step1] 346
   \<and> spec_profit_sum [ex_step1] = 346
   \<and> (0::nat) < length [ex_step1]
   \<and> cumulative_profit ([ex_step1] ! 0) = spec_profit_sum (take (Suc 0) [ex_step1])"
proof -
  have t: "profit_thread ex_env 0 [ex_step1] 346"
    by (rule thread_reaction[OF ex_step]) (rule thread_done)
  show ?thesis
    using t C2_profit_additivity [of ex_env "[ex_step1]" 346] by (simp add: ex_totals)
qed

text \<open>
  Claim C2 as stated fails: for the single-step chain of the example the step profit is
  \<open>500 * 0.9 - 4 - 0 - 100 = 346\<close>, the reported final profit is
  \<open>500 - 4 - 0 - 100 = 396\<close>; the broker fee on the output is in the one and not in
  the other.
\<close>

theorem C2_profit_additivity_counterexample:
  "build_step ex_env ex_plan 10 [1 \<mapsto> 100] 0 Map.empty
     = Inr (ex_step1, [1 \<mapsto> 0, 2 \<mapsto> 50], 346)
   \<and> spec_profit_sum [ex_step1] = 346
   \<and> final_profit [ex_step1] = 396"
  using ex_step ex_totals by simp

section \<open>Price lookup: proofs\<close>








end
